theory Spec2Isabelle
  imports Main
begin

section \<open>Data model\<close>

text \<open>
  The backend is a single Hono application over three PostgreSQL tables. The types below
  follow the \<open>JWTPayload\<close> type of the source and the columns of its
  \<open>CREATE TABLE\<close> statements. Ids are JavaScript numbers read from \<open>SERIAL\<close>
  columns (\<open>int\<close>); timestamps are seconds on one clock (\<open>nat\<close>), shared by
  \<open>NOW()\<close> and the token library.
\<close>

datatype role = Admin | Member

datatype plan = Free | Pro

record JWTPayload =
  sub :: int
  email :: string
  role :: role
  tenantId :: int
  tenantSlug :: string
  plan :: plan

text \<open>
  Modelled from the spec: the stored hash of the third-party package bcryptjs, which is not
  part of the sources. The spec's Credential Verifier describes a salted, slow, one-way hash
  with a fixed cost factor. The digest is kept symbolic: it records the cost, the salt and
  the plain text it was made from.
\<close>

datatype bcrypt_digest = BcryptDigest (digest_cost: nat) (digest_salt: string) (digest_plain: string)

text \<open>
  Modelled from the spec: \<open>bcrypt.hash(plain, rounds)\<close> of bcryptjs, with the salt the
  library draws made an argument.
\<close>

definition bcrypt_hash :: "string \<Rightarrow> nat \<Rightarrow> string \<Rightarrow> bcrypt_digest" where
  "bcrypt_hash plain rounds salt_bytes = BcryptDigest rounds salt_bytes plain"

text \<open>
  Modelled from the spec: \<open>bcrypt.compare(plain, hash)\<close> of bcryptjs, the spec's
  \<open>verify(plainPassword, storedHash)\<close>: true exactly when the hash was made from that
  plain text.
\<close>

definition bcrypt_compare :: "string \<Rightarrow> bcrypt_digest \<Rightarrow> bool" where
  "bcrypt_compare plain h = (digest_plain h = plain)"

record tenant_row =
  t_id :: int
  t_slug :: string
  t_name :: string
  t_plan :: plan
  t_created_at :: nat

record user_row =
  u_id :: int
  u_email :: string
  u_password_hash :: bcrypt_digest
  u_role :: role
  u_tenant_id :: int
  u_created_at :: nat

record note_row =
  n_id :: int
  n_tenant_id :: int
  n_user_id :: int
  n_title :: string
  n_content :: string
  n_created_at :: nat
  n_updated_at :: nat

text \<open>
  The state is the three tables, the three \<open>SERIAL\<close> sequences and the module level
  flag \<open>initialized\<close>. The tables \<open>tenants\<close>, \<open>users\<close> and \<open>notes\<close>
  carry the prefix \<open>tbl_\<close>. A table is the list of its rows in insertion order. Rows get
  their id from the sequence; the sequences are advanced by nothing but the inserts below.
\<close>

record state =
  tbl_tenants :: "tenant_row list"
  tbl_users :: "user_row list"
  tbl_notes :: "note_row list"
  tenants_seq :: int
  users_seq :: int
  notes_seq :: int
  initialized :: bool

text \<open>
  What a request sees besides the state: the variable \<open>JWT_SECRET\<close> of the process
  environment, the clock, and the random salt the hashing library draws.
\<close>

record env =
  env_JWT_SECRET :: "string option"
  clock :: nat
  salt :: string

section \<open>Responses\<close>

text \<open>
  \<open>note_json\<close> is a row as the note queries return it: the columns
  \<open>id, title, content, user_id, created_at, updated_at\<close>, without \<open>tenant_id\<close>.
\<close>

record note_json =
  j_id :: int
  j_title :: string
  j_content :: string
  j_user_id :: int
  j_created_at :: nat
  j_updated_at :: nat

definition returning :: "note_row \<Rightarrow> note_json" where
  "returning n = \<lparr> j_id = n_id n, j_title = n_title n, j_content = n_content n,
     j_user_id = n_user_id n, j_created_at = n_created_at n, j_updated_at = n_updated_at n \<rparr>"

text \<open>
  Modelled from the spec: the tokens of the third-party package jsonwebtoken, which is not
  part of the sources. Following the spec's Identity Token Codec, a token is the claim and
  an expiry, signed with a secret. The signature is symbolic: a token records the secret
  it was signed with. \<open>Garbage\<close> stands for every string that does not parse as a
  token.
\<close>

datatype token =
    Jwt (jwt_key: string) (jwt_claim: JWTPayload) (jwt_iat: nat) (jwt_exp: nat)
  | Garbage string

text \<open>
  Modelled from the spec: the three ways the spec's \<open>verify\<close> fails.
\<close>

datatype DecodeError = Malformed | BadSignature | Expired

text \<open>
  The lifetime \<open>'7d'\<close> that \<open>signToken\<close> passes as \<open>expiresIn\<close>, in seconds.
\<close>

definition seconds_7d :: nat where
  "seconds_7d = 7 * 24 * 60 * 60"

text \<open>
  Modelled from the spec: \<open>jwt.sign(payload, secret, {algorithm, expiresIn})\<close> of
  jsonwebtoken, the spec's \<open>issue\<close>: the claim with an expiry a fixed lifetime after
  issuance, signed with the secret.
\<close>

definition jwt_sign :: "JWTPayload \<Rightarrow> string \<Rightarrow> nat \<Rightarrow> nat \<Rightarrow> token" where
  "jwt_sign payload secret expiresIn now = Jwt secret payload now (now + expiresIn)"

text \<open>
  Modelled from the spec: \<open>jwt.verify(token, secret)\<close> of jsonwebtoken, the spec's
  \<open>verify\<close>: \<open>Malformed\<close> for a string that is no token, \<open>BadSignature\<close> when
  the signature does not match the secret, \<open>Expired\<close> when the current time exceeds
  the embedded expiry, and the claim otherwise. In the source a failure is a thrown
  exception.
\<close>

definition jwt_verify :: "token \<Rightarrow> string \<Rightarrow> nat \<Rightarrow> DecodeError + JWTPayload" where
  "jwt_verify tok secret now =
     (case tok of
        Garbage _ \<Rightarrow> Inl Malformed
      | Jwt k payload iat ex \<Rightarrow>
          if k \<noteq> secret then Inl BadSignature
          else if ex < now then Inl Expired
          else Inr payload)"

record user_json =
  uj_email :: string
  uj_role :: role
  uj_tenant_slug :: string
  uj_tenant_name :: string
  uj_tenant_plan :: plan

text \<open>
  The JSON bodies the handlers send. \<open>ErrorBody m\<close> is \<open>{error: m}\<close>,
  \<open>QuotaBody e m\<close> is \<open>{error: e, message: m}\<close>, \<open>SuccessBody\<close> is
  \<open>{success: true}\<close>, \<open>UpgradeBody p\<close> is \<open>{success: true, plan: p}\<close>,
  \<open>LoginBody\<close> is \<open>{token, user}\<close>, and \<open>UndefinedBody\<close> is
  \<open>c.json(undefined)\<close>, sent when \<open>rows[0]\<close> of an empty result is returned.
\<close>

datatype body =
    ErrorBody string
  | QuotaBody string string
  | SuccessBody
  | UpgradeBody string
  | NoteBody note_json
  | LoginBody token user_json
  | UndefinedBody

text \<open>
  \<open>Uncaught\<close>: an exception left the handler outside every \<open>try\<close> block, and
  the framework answers in its place.
\<close>

datatype response = Response nat body | Uncaught

fun status :: "response \<Rightarrow> nat option" where
  "status (Response code _) = Some code"
| "status Uncaught = None"

section \<open>Token handling\<close>

definition JWT_SECRET :: "env \<Rightarrow> string" where
  "JWT_SECRET e =
     (case env_JWT_SECRET e of
        None \<Rightarrow> ''dev-secret-change-in-production''
      | Some v \<Rightarrow> if v = [] then ''dev-secret-change-in-production'' else v)"

definition signToken :: "env \<Rightarrow> JWTPayload \<Rightarrow> token" where
  "signToken e payload = jwt_sign payload (JWT_SECRET e) seconds_7d (clock e)"

text \<open>
  The \<open>authorization\<close> header: absent, a string starting with \<open>'Bearer '\<close> whose
  remainder (\<open>slice(7)\<close>) is the token, or any other string.
\<close>

datatype auth_header = Bearer token | OtherHeader string

definition requireAuth ::
  "role option \<Rightarrow> env \<Rightarrow> auth_header option \<Rightarrow>
   (JWTPayload \<Rightarrow> state \<Rightarrow> response \<times> state) \<Rightarrow> state \<Rightarrow> response \<times> state" where
  "requireAuth requiredRole e authHeader next s =
     (case authHeader of
        None \<Rightarrow> (Response 401 (ErrorBody ''Unauthorized''), s)
      | Some (OtherHeader _) \<Rightarrow> (Response 401 (ErrorBody ''Unauthorized''), s)
      | Some (Bearer tok) \<Rightarrow>
          (case jwt_verify tok (JWT_SECRET e) (clock e) of
             Inl err \<Rightarrow> (Response 401 (ErrorBody ''Invalid token''), s)
           | Inr decoded \<Rightarrow>
               (case requiredRole of
                  None \<Rightarrow> next decoded s
                | Some r \<Rightarrow>
                    if role decoded \<noteq> r then (Response 403 (ErrorBody ''Forbidden''), s)
                    else next decoded s)))"

section \<open>Storage\<close>

text \<open>
  A query result is the list of its rows; \<open>rows0\<close> is the source's \<open>.rows[0]\<close>,
  which is \<open>undefined\<close> (\<open>None\<close>) on an empty result.
\<close>

definition rows0 :: "'a list \<Rightarrow> 'a option" where
  "rows0 rows = (case rows of [] \<Rightarrow> None | r # _ \<Rightarrow> Some r)"

text \<open>
  A text parameter of a statement is \<open>None\<close> for \<open>NULL\<close> or its text. The server
  rejects a text that holds the byte zero, and the query throws. \<open>int4\<close> is the range
  of the \<open>INTEGER\<close> columns; \<open>int4_in\<close> is what the server reads from the text of
  an id parameter: \<open>None\<close>, where the query throws, when the text is not that of an
  integer or the integer is out of range.
\<close>

definition text_ok :: "string option \<Rightarrow> bool" where
  "text_ok p = (case p of None \<Rightarrow> True | Some t \<Rightarrow> CHR 0x00 \<notin> set t)"

definition int4 :: "int \<Rightarrow> bool" where
  "int4 i = (- 2147483648 \<le> i \<and> i \<le> 2147483647)"

definition int4_in :: "int option \<Rightarrow> int option" where
  "int4_in p = (case p of None \<Rightarrow> None | Some i \<Rightarrow> if int4 i then Some i else None)"

text \<open>
  What a statement or the initialisation's own JavaScript can throw, as far as the request
  and the stored data decide it: a text parameter with the byte zero, a \<open>NULL\<close> for a
  \<open>NOT NULL\<close> column, a violated \<open>UNIQUE\<close> constraint (the only error whose message
  contains \<open>duplicate\<close>, which is what the invite handler looks for), a violated
  \<open>REFERENCES\<close> constraint, and a property read on \<open>undefined\<close>. An id drawn from
  a sequence is taken to be unused in its table and within \<open>int4\<close>, so the primary keys
  raise nothing; the section on the primary key of the notes shows that the handlers keep
  the ids distinct and below the sequence.
\<close>

datatype exn =
    PgInvalidByteSequence
  | PgNotNullViolation
  | PgUniqueViolation
  | PgForeignKeyViolation
  | JsTypeError

fun insert_tenants_do_nothing ::
  "(string \<times> string \<times> plan) list \<Rightarrow> nat \<Rightarrow> state \<Rightarrow> state" where
  "insert_tenants_do_nothing [] now s = s"
| "insert_tenants_do_nothing ((slug, name, p) # vs) now s =
     (let i = tenants_seq s; s1 = s\<lparr>tenants_seq := i + 1\<rparr> in
      insert_tenants_do_nothing vs now
        (if \<exists>t \<in> set (tbl_tenants s). t_slug t = slug then s1
         else s1\<lparr>tbl_tenants := tbl_tenants s @
                [\<lparr>t_id = i, t_slug = slug, t_name = name, t_plan = p, t_created_at = now\<rparr>]\<rparr>))"

fun insert_users_rows ::
  "(string \<times> bcrypt_digest \<times> role \<times> int) list \<Rightarrow> nat \<Rightarrow> state \<Rightarrow> exn option \<times> state" where
  "insert_users_rows [] now s = (None, s)"
| "insert_users_rows ((em, h, r, tid) # vs) now s =
     (let i = users_seq s; s1 = s\<lparr>users_seq := i + 1\<rparr> in
      if \<exists>u \<in> set (tbl_users s). u_email u = em then insert_users_rows vs now s1
      else if \<not> (\<exists>t \<in> set (tbl_tenants s). t_id t = tid) then (Some PgForeignKeyViolation, s1)
      else insert_users_rows vs now
             (s1\<lparr>tbl_users := tbl_users s @
                [\<lparr>u_id = i, u_email = em, u_password_hash = h, u_role = r,
                  u_tenant_id = tid, u_created_at = now\<rparr>]\<rparr>))"

text \<open>
  \<open>INSERT INTO users ... ON CONFLICT (email) DO NOTHING\<close> is one statement: when a row
  fails, the rows the statement had inserted are undone, while the sequence keeps the
  values drawn for all its rows.
\<close>

definition insert_users_do_nothing ::
  "(string \<times> bcrypt_digest \<times> role \<times> int) list \<Rightarrow> nat \<Rightarrow> state \<Rightarrow> exn option \<times> state" where
  "insert_users_do_nothing vs now s =
     (case insert_users_rows vs now s of
        (None, s') \<Rightarrow> (None, s')
      | (Some x, s') \<Rightarrow> (Some x, s\<lparr>users_seq := users_seq s + int (length vs)\<rparr>))"

text \<open>
  The \<open>INSERT INTO users\<close> of the invite handler. A parameter the server rejects ends
  the statement before a sequence value is drawn.
\<close>

definition insert_user ::
  "string option \<Rightarrow> bcrypt_digest \<Rightarrow> role \<Rightarrow> int \<Rightarrow> nat \<Rightarrow> state \<Rightarrow> exn option \<times> state" where
  "insert_user email_param h r tid now s =
     (if \<not> text_ok email_param then (Some PgInvalidByteSequence, s)
      else
        let i = users_seq s; s1 = s\<lparr>users_seq := i + 1\<rparr> in
        case email_param of
          None \<Rightarrow> (Some PgNotNullViolation, s1)
        | Some em \<Rightarrow>
            if \<exists>u \<in> set (tbl_users s). u_email u = em then (Some PgUniqueViolation, s1)
            else if \<not> (\<exists>t \<in> set (tbl_tenants s). t_id t = tid)
            then (Some PgForeignKeyViolation, s1)
            else (None, s1\<lparr>tbl_users := tbl_users s @
                    [\<lparr>u_id = i, u_email = em, u_password_hash = h, u_role = r,
                      u_tenant_id = tid, u_created_at = now\<rparr>]\<rparr>))"

text \<open>
  The \<open>INSERT INTO notes\<close> of the create handler, with the row it returns.
\<close>

definition insert_note ::
  "int \<Rightarrow> int \<Rightarrow> string option \<Rightarrow> string option \<Rightarrow> nat \<Rightarrow> state \<Rightarrow>
   (exn + note_row) \<times> state" where
  "insert_note tid uid title_param content_param now s =
     (if \<not> text_ok title_param \<or> \<not> text_ok content_param then (Inl PgInvalidByteSequence, s)
      else
        let i = notes_seq s; s1 = s\<lparr>notes_seq := i + 1\<rparr> in
        case (title_param, content_param) of
          (Some title, Some content) \<Rightarrow>
            (let row = \<lparr>n_id = i, n_tenant_id = tid, n_user_id = uid, n_title = title,
                         n_content = content, n_created_at = now, n_updated_at = now\<rparr> in
             if \<not> (\<exists>t \<in> set (tbl_tenants s). t_id t = tid)
             then (Inl PgForeignKeyViolation, s1)
             else if \<not> (\<exists>u \<in> set (tbl_users s). u_id u = uid)
             then (Inl PgForeignKeyViolation, s1)
             else (Inr row, s1\<lparr>tbl_notes := tbl_notes s @ [row]\<rparr>))
        | _ \<Rightarrow> (Inl PgNotNullViolation, s1))"

definition COALESCE :: "'a option \<Rightarrow> 'a \<Rightarrow> 'a" where
  "COALESCE v d = (case v of None \<Rightarrow> d | Some x \<Rightarrow> x)"

text \<open>
  \<open>set_clause\<close> is the \<open>SET\<close> clause of the handler's \<open>UPDATE notes\<close>,
  \<open>update_note\<close> the statement with its \<open>WHERE id = $3\<close>: it throws on a text
  parameter the server rejects, and changes nothing then.
\<close>

definition set_clause :: "string option \<Rightarrow> string option \<Rightarrow> nat \<Rightarrow> note_row \<Rightarrow> note_row" where
  "set_clause title content now n =
     n\<lparr>n_title := COALESCE title (n_title n),
       n_content := COALESCE content (n_content n),
       n_updated_at := now\<rparr>"

definition update_note ::
  "string option \<Rightarrow> string option \<Rightarrow> int \<Rightarrow> nat \<Rightarrow> state \<Rightarrow> exn option \<times> state" where
  "update_note title content i now s =
     (if \<not> text_ok title \<or> \<not> text_ok content then (Some PgInvalidByteSequence, s)
      else (None,
            s\<lparr>tbl_notes :=
               map (\<lambda>n. if n_id n = i then set_clause title content now n else n)
                 (tbl_notes s)\<rparr>))"

definition delete_note :: "int \<Rightarrow> state \<Rightarrow> state" where
  "delete_note i s = s\<lparr>tbl_notes := filter (\<lambda>n. n_id n \<noteq> i) (tbl_notes s)\<rparr>"

definition upgrade_tenant :: "int \<Rightarrow> state \<Rightarrow> state" where
  "upgrade_tenant tid s =
     s\<lparr>tbl_tenants := map (\<lambda>t. if t_id t = tid then t\<lparr>t_plan := Pro\<rparr> else t) (tbl_tenants s)\<rparr>"

section \<open>Initialisation\<close>

text \<open>
  \<open>initializeDatabase\<close>: the \<open>CREATE ... IF NOT EXISTS\<close> statements change no row;
  the two default tenants and their four users are inserted unless present. The result is
  the exception thrown, if any, and the state reached.
\<close>

definition initializeDatabase :: "env \<Rightarrow> state \<Rightarrow> exn option \<times> state" where
  "initializeDatabase e s =
     (if initialized s then (None, s)
      else
        let s1 = insert_tenants_do_nothing
                   [(''acme'', ''Acme Corporation'', Free),
                    (''globex'', ''Globex Corporation'', Free)] (clock e) s;
            acmeTenant = rows0 (filter (\<lambda>t. t_slug t = ''acme'') (tbl_tenants s1));
            globexTenant = rows0 (filter (\<lambda>t. t_slug t = ''globex'') (tbl_tenants s1));
            passwordHash = bcrypt_hash ''password'' 10 (salt e)
        in case acmeTenant of
             None \<Rightarrow> (Some JsTypeError, s1)
           | Some a \<Rightarrow>
               (case insert_users_do_nothing
                       [(''admin@acme.test'', passwordHash, Admin, t_id a),
                        (''user@acme.test'', passwordHash, Member, t_id a)] (clock e) s1 of
                  (Some x, s2) \<Rightarrow> (Some x, s2)
                | (None, s2) \<Rightarrow>
                    (case globexTenant of
                       None \<Rightarrow> (Some JsTypeError, s2)
                     | Some g \<Rightarrow>
                         (case insert_users_do_nothing
                                 [(''admin@globex.test'', passwordHash, Admin, t_id g),
                                  (''user@globex.test'', passwordHash, Member, t_id g)]
                                 (clock e) s2 of
                            (Some x, s3) \<Rightarrow> (Some x, s3)
                          | (None, s3) \<Rightarrow> (None, s3\<lparr>initialized := True\<rparr>)))))"

section \<open>Request bodies\<close>

text \<open>
  A value read from the parsed JSON body: \<open>JUndefined\<close> for a field that is absent,
  \<open>JNum t\<close> for a number, given by the text \<open>t\<close> that JavaScript prints for it
  (which is \<open>0\<close> exactly for a zero), and \<open>JOther t\<close> for an array or object, given
  by the text \<open>t\<close> that the database driver binds for it.
\<close>

datatype jsval = JUndefined | JNull | JBool bool | JNum string | JStr string | JOther string

text \<open>
  \<open>falsy\<close> is JavaScript's \<open>!x\<close>. \<open>prepareValue\<close> is the parameter the driver
  binds for a value: \<open>NULL\<close> for \<open>undefined\<close> and \<open>null\<close>, and the value's text
  otherwise. \<open>bindable\<close> holds of a value whose parameter the server accepts as text.
\<close>

fun falsy :: "jsval \<Rightarrow> bool" where
  "falsy JUndefined = True"
| "falsy JNull = True"
| "falsy (JBool b) = (\<not> b)"
| "falsy (JNum t) = (t = ''0'')"
| "falsy (JStr t) = (t = [])"
| "falsy (JOther t) = False"

fun prepareValue :: "jsval \<Rightarrow> string option" where
  "prepareValue JUndefined = None"
| "prepareValue JNull = None"
| "prepareValue (JBool b) = Some (if b then ''true'' else ''false'')"
| "prepareValue (JNum t) = Some t"
| "prepareValue (JStr t) = Some t"
| "prepareValue (JOther t) = Some t"

definition bindable :: "jsval \<Rightarrow> bool" where
  "bindable v = text_ok (prepareValue v)"

text \<open>
  The fields a handler takes from the body by destructuring. A body that is a number, a
  text or an array has none of them. Where a handler takes a body, the argument is
  \<open>None\<close> when \<open>c.req.json()\<close> throws or yields \<open>null\<close>, whose destructuring
  throws; both happen outside the handler's \<open>try\<close> block.
\<close>

record login_body =
  lb_email :: jsval
  lb_password :: jsval

record invite_body =
  ib_email :: jsval
  ib_role :: jsval

record note_body =
  nb_title :: jsval
  nb_content :: jsval

text \<open>
  \<open>role_of_json v\<close> is the role when \<open>['admin', 'member'].includes(v)\<close>.
\<close>

definition role_of_json :: "jsval \<Rightarrow> role option" where
  "role_of_json v = (if v = JStr ''admin'' then Some Admin
                     else if v = JStr ''member'' then Some Member else None)"

section \<open>Handlers\<close>

text \<open>
  Each handler is the body of the route of the same path, after the middleware has stored
  the decoded claim as \<open>auth\<close>. The path parameter \<open>id\<close> is \<open>Some i\<close> when it is
  the text of the integer \<open>i\<close> and \<open>None\<close> otherwise. The ids of a claim are those
  the login read from the tables. \<open>initializeDatabase\<close> and the reading of the body are
  awaited outside the \<open>try\<close> block.
\<close>

text \<open>
  In the login, \<open>bcrypt.compare\<close> throws on a password that is not a string, and the
  \<open>catch\<close> answers 500.
\<close>

definition post_auth_login :: "env \<Rightarrow> login_body option \<Rightarrow> state \<Rightarrow> response \<times> state" where
  "post_auth_login e body s =
     (case initializeDatabase e s of
        (Some x, s1) \<Rightarrow> (Uncaught, s1)
      | (None, s1) \<Rightarrow>
          (case body of
             None \<Rightarrow> (Uncaught, s1)
           | Some b \<Rightarrow>
               if falsy (lb_email b) \<or> falsy (lb_password b)
               then (Response 400 (ErrorBody ''Email and password are required''), s1)
               else if \<not> bindable (lb_email b)
               then (Response 500 (ErrorBody ''Internal server error''), s1)
               else
                 (case rows0 (filter (\<lambda>u. Some (u_email u) = prepareValue (lb_email b))
                                (tbl_users s1)) of
                    None \<Rightarrow> (Response 401 (ErrorBody ''Invalid credentials''), s1)
                  | Some user \<Rightarrow>
                      (case lb_password b of
                         JStr password \<Rightarrow>
                           if \<not> bcrypt_compare password (u_password_hash user)
                           then (Response 401 (ErrorBody ''Invalid credentials''), s1)
                           else
                             (case rows0 (filter (\<lambda>t. t_id t = u_tenant_id user)
                                            (tbl_tenants s1)) of
                                None \<Rightarrow> (Response 500 (ErrorBody ''Internal server error''), s1)
                              | Some tenant \<Rightarrow>
                                  (Response 200
                                     (LoginBody
                                        (signToken e \<lparr>sub = u_id user, email = u_email user,
                                           role = u_role user, tenantId = t_id tenant,
                                           tenantSlug = t_slug tenant, plan = t_plan tenant\<rparr>)
                                        \<lparr>uj_email = u_email user, uj_role = u_role user,
                                          uj_tenant_slug = t_slug tenant,
                                          uj_tenant_name = t_name tenant,
                                          uj_tenant_plan = t_plan tenant\<rparr>), s1))
                       | _ \<Rightarrow> (Response 500 (ErrorBody ''Internal server error''), s1)))))"

definition post_tenants_upgrade :: "env \<Rightarrow> string \<Rightarrow> JWTPayload \<Rightarrow> state \<Rightarrow> response \<times> state" where
  "post_tenants_upgrade e slug auth s =
     (case initializeDatabase e s of
        (Some x, s1) \<Rightarrow> (Uncaught, s1)
      | (None, s1) \<Rightarrow>
          if slug \<noteq> tenantSlug auth
          then (Response 403 (ErrorBody ''Forbidden: Cannot upgrade other tenants''), s1)
          else (Response 200 (UpgradeBody ''pro''), upgrade_tenant (tenantId auth) s1))"

definition post_tenants_invite ::
  "env \<Rightarrow> string \<Rightarrow> invite_body option \<Rightarrow> JWTPayload \<Rightarrow> state \<Rightarrow> response \<times> state" where
  "post_tenants_invite e slug body auth s =
     (case initializeDatabase e s of
        (Some x, s1) \<Rightarrow> (Uncaught, s1)
      | (None, s1) \<Rightarrow>
          if slug \<noteq> tenantSlug auth
          then (Response 403 (ErrorBody ''Forbidden: Cannot invite to other tenants''), s1)
          else
            (case body of
               None \<Rightarrow> (Uncaught, s1)
             | Some b \<Rightarrow>
                 (case (if falsy (ib_email b) then None else role_of_json (ib_role b)) of
                    None \<Rightarrow> (Response 400 (ErrorBody ''Email and valid role are required''), s1)
                  | Some r \<Rightarrow>
                      (let passwordHash = bcrypt_hash ''password'' 10 (salt e) in
                       case insert_user (prepareValue (ib_email b)) passwordHash r
                              (tenantId auth) (clock e) s1 of
                         (None, s2) \<Rightarrow> (Response 200 SuccessBody, s2)
                       | (Some PgUniqueViolation, s2) \<Rightarrow>
                           (Response 409 (ErrorBody ''User already exists''), s2)
                       | (Some _, s2) \<Rightarrow>
                           (Response 500 (ErrorBody ''Failed to invite user''), s2)))))"

definition get_notes_id :: "env \<Rightarrow> int option \<Rightarrow> JWTPayload \<Rightarrow> state \<Rightarrow> response \<times> state" where
  "get_notes_id e pid auth s =
     (case initializeDatabase e s of
        (Some x, s1) \<Rightarrow> (Uncaught, s1)
      | (None, s1) \<Rightarrow>
          (case int4_in pid of
             None \<Rightarrow> (Response 500 (ErrorBody ''Failed to fetch note''), s1)
           | Some i \<Rightarrow>
               (case rows0 (filter (\<lambda>n. n_id n = i \<and> n_tenant_id n = tenantId auth)
                              (tbl_notes s1)) of
                  None \<Rightarrow> (Response 404 (ErrorBody ''Note not found''), s1)
                | Some note \<Rightarrow> (Response 200 (NoteBody (returning note)), s1))))"

definition post_notes :: "env \<Rightarrow> note_body option \<Rightarrow> JWTPayload \<Rightarrow> state \<Rightarrow> response \<times> state" where
  "post_notes e body auth s =
     (case initializeDatabase e s of
        (Some x, s1) \<Rightarrow> (Uncaught, s1)
      | (None, s1) \<Rightarrow>
          (case body of
             None \<Rightarrow> (Uncaught, s1)
           | Some b \<Rightarrow>
               if falsy (nb_title b) \<or> falsy (nb_content b)
               then (Response 400 (ErrorBody ''Title and content are required''), s1)
               else
                 (case rows0 (filter (\<lambda>t. t_id t = tenantId auth) (tbl_tenants s1)) of
                    None \<Rightarrow> (Response 500 (ErrorBody ''Failed to create note''), s1)
                  | Some tenant \<Rightarrow>
                      if t_plan tenant = Free \<and>
                         length (filter (\<lambda>n. n_tenant_id n = tenantId auth) (tbl_notes s1)) \<ge> 3
                      then (Response 402
                              (QuotaBody ''note_limit_reached''
                                 ''Free plan is limited to 3 notes. Upgrade to Pro for unlimited notes.''),
                            s1)
                      else
                        (case insert_note (tenantId auth) (sub auth) (prepareValue (nb_title b))
                                (prepareValue (nb_content b)) (clock e) s1 of
                           (Inl x, s2) \<Rightarrow> (Response 500 (ErrorBody ''Failed to create note''), s2)
                         | (Inr row, s2) \<Rightarrow> (Response 201 (NoteBody (returning row)), s2)))))"

definition put_notes_id ::
  "env \<Rightarrow> int option \<Rightarrow> note_body option \<Rightarrow> JWTPayload \<Rightarrow> state \<Rightarrow> response \<times> state" where
  "put_notes_id e pid body auth s =
     (case initializeDatabase e s of
        (Some x, s1) \<Rightarrow> (Uncaught, s1)
      | (None, s1) \<Rightarrow>
          (case body of
             None \<Rightarrow> (Uncaught, s1)
           | Some b \<Rightarrow>
               (case int4_in pid of
                  None \<Rightarrow> (Response 500 (ErrorBody ''Failed to update note''), s1)
                | Some i \<Rightarrow>
                    (case rows0 (filter (\<lambda>n. n_id n = i \<and> n_tenant_id n = tenantId auth)
                                   (tbl_notes s1)) of
                       None \<Rightarrow> (Response 404 (ErrorBody ''Note not found''), s1)
                     | Some note \<Rightarrow>
                         if role auth = Member \<and> n_user_id note \<noteq> sub auth
                         then (Response 403
                                 (ErrorBody ''Forbidden: You can only edit your own notes''), s1)
                         else
                           (case update_note (prepareValue (nb_title b))
                                   (prepareValue (nb_content b)) i (clock e) s1 of
                              (Some x, s2) \<Rightarrow>
                                (Response 500 (ErrorBody ''Failed to update note''), s2)
                            | (None, s2) \<Rightarrow>
                                (Response 200
                                   (case rows0 (filter (\<lambda>n. n_id n = i) (tbl_notes s2)) of
                                      None \<Rightarrow> UndefinedBody
                                    | Some r \<Rightarrow> NoteBody (returning r)), s2))))))"

definition delete_notes_id :: "env \<Rightarrow> int option \<Rightarrow> JWTPayload \<Rightarrow> state \<Rightarrow> response \<times> state" where
  "delete_notes_id e pid auth s =
     (case initializeDatabase e s of
        (Some x, s1) \<Rightarrow> (Uncaught, s1)
      | (None, s1) \<Rightarrow>
          (case int4_in pid of
             None \<Rightarrow> (Response 500 (ErrorBody ''Failed to delete note''), s1)
           | Some i \<Rightarrow>
               (case rows0 (filter (\<lambda>n. n_id n = i \<and> n_tenant_id n = tenantId auth)
                              (tbl_notes s1)) of
                  None \<Rightarrow> (Response 404 (ErrorBody ''Note not found''), s1)
                | Some note \<Rightarrow>
                    if role auth = Member \<and> n_user_id note \<noteq> sub auth
                    then (Response 403
                            (ErrorBody ''Forbidden: You can only delete your own notes''), s1)
                    else (Response 200 SuccessBody, delete_note i s1))))"

section \<open>Routes\<close>

text \<open>
  A route is its handler behind the middleware it is registered with:
  \<open>requireAuth('admin')\<close> for the two tenant routes, \<open>requireAuth()\<close> for the note
  routes, none for the login.
\<close>

definition route_upgrade :: "env \<Rightarrow> auth_header option \<Rightarrow> string \<Rightarrow> state \<Rightarrow> response \<times> state" where
  "route_upgrade e h slug s = requireAuth (Some Admin) e h (post_tenants_upgrade e slug) s"

definition route_invite ::
  "env \<Rightarrow> auth_header option \<Rightarrow> string \<Rightarrow> invite_body option \<Rightarrow> state \<Rightarrow> response \<times> state" where
  "route_invite e h slug b s = requireAuth (Some Admin) e h (post_tenants_invite e slug b) s"

definition route_get_note :: "env \<Rightarrow> auth_header option \<Rightarrow> int option \<Rightarrow> state \<Rightarrow> response \<times> state" where
  "route_get_note e h pid s = requireAuth None e h (get_notes_id e pid) s"

definition route_create_note ::
  "env \<Rightarrow> auth_header option \<Rightarrow> note_body option \<Rightarrow> state \<Rightarrow> response \<times> state" where
  "route_create_note e h b s = requireAuth None e h (post_notes e b) s"

definition route_update_note ::
  "env \<Rightarrow> auth_header option \<Rightarrow> int option \<Rightarrow> note_body option \<Rightarrow> state \<Rightarrow> response \<times> state" where
  "route_update_note e h pid b s = requireAuth None e h (put_notes_id e pid b) s"

definition route_delete_note :: "env \<Rightarrow> auth_header option \<Rightarrow> int option \<Rightarrow> state \<Rightarrow> response \<times> state" where
  "route_delete_note e h pid s = requireAuth None e h (delete_notes_id e pid) s"

section \<open>Derived notions\<close>

text \<open>
  \<open>initialised e s\<close> is the state a handler works on: \<open>s\<close> after
  \<open>initializeDatabase\<close>. \<open>refused r\<close> holds of a JSON error response with a 4xx
  or 5xx status. \<open>note_count tid s\<close> is the value of the handler's
  \<open>SELECT COUNT(*) FROM notes WHERE tenant_id = tid\<close>.
\<close>

definition initialised :: "env \<Rightarrow> state \<Rightarrow> state" where
  "initialised e s = snd (initializeDatabase e s)"

fun refused :: "response \<Rightarrow> bool" where
  "refused (Response code (ErrorBody m)) = (400 \<le> code)"
| "refused _ = False"

definition note_count :: "int \<Rightarrow> state \<Rightarrow> nat" where
  "note_count tid s = length (filter (\<lambda>n. n_tenant_id n = tid) (tbl_notes s))"

text \<open>
  \<open>pk_notes\<close>: the ids of the notes are distinct and lie below the next value of the
  sequence, so that the sequence hands out unused ids. \<open>empty_state\<close> is the database
  before the first request of the first process.
\<close>

definition pk_notes :: "state \<Rightarrow> bool" where
  "pk_notes s = (distinct (map n_id (tbl_notes s)) \<and> (\<forall>n \<in> set (tbl_notes s). n_id n < notes_seq s))"

definition empty_state :: state where
  "empty_state = \<lparr>tbl_tenants = [], tbl_users = [], tbl_notes = [], tenants_seq = 1,
     users_seq = 1, notes_seq = 1, initialized = False\<rparr>"

section \<open>A concrete deployment\<close>

text \<open>
  The seeded database of the README (tenants Acme and Globex, an admin and a member each,
  every password \<open>password\<close>) with three notes, used to run the handlers on concrete
  input. Tokens are issued at time 1000 and presented at time 2000.
\<close>

definition ex_issue_env :: env where
  "ex_issue_env = \<lparr>env_JWT_SECRET = Some ''k'', clock = 1000, salt = ''s''\<rparr>"

definition ex_env :: env where
  "ex_env = \<lparr>env_JWT_SECRET = Some ''k'', clock = 2000, salt = ''s''\<rparr>"

definition acme_admin :: JWTPayload where
  "acme_admin = \<lparr>sub = 1, email = ''admin@acme.test'', role = Admin, tenantId = 1,
     tenantSlug = ''acme'', plan = Free\<rparr>"

definition acme_member :: JWTPayload where
  "acme_member = \<lparr>sub = 2, email = ''user@acme.test'', role = Member, tenantId = 1,
     tenantSlug = ''acme'', plan = Free\<rparr>"

definition globex_member :: JWTPayload where
  "globex_member = \<lparr>sub = 4, email = ''user@globex.test'', role = Member, tenantId = 2,
     tenantSlug = ''globex'', plan = Free\<rparr>"

definition ex_token :: "JWTPayload \<Rightarrow> token" where
  "ex_token c = signToken ex_issue_env c"

definition ex_note1 :: note_row where
  "ex_note1 = \<lparr>n_id = 1, n_tenant_id = 1, n_user_id = 1, n_title = ''plan'',
     n_content = ''ship it'', n_created_at = 10, n_updated_at = 10\<rparr>"

definition ex_note2 :: note_row where
  "ex_note2 = \<lparr>n_id = 2, n_tenant_id = 2, n_user_id = 4, n_title = ''secret'',
     n_content = ''globex only'', n_created_at = 20, n_updated_at = 20\<rparr>"

definition ex_note3 :: note_row where
  "ex_note3 = \<lparr>n_id = 3, n_tenant_id = 1, n_user_id = 2, n_title = ''todo'',
     n_content = ''tests'', n_created_at = 30, n_updated_at = 30\<rparr>"

definition ex_note4 :: note_row where
  "ex_note4 = \<lparr>n_id = 4, n_tenant_id = 1, n_user_id = 1, n_title = ''more'',
     n_content = ''notes'', n_created_at = 40, n_updated_at = 40\<rparr>"

definition ex_acme :: tenant_row where
  "ex_acme = \<lparr>t_id = 1, t_slug = ''acme'', t_name = ''Acme Corporation'', t_plan = Free,
     t_created_at = 0\<rparr>"

definition ex_globex :: tenant_row where
  "ex_globex = \<lparr>t_id = 2, t_slug = ''globex'', t_name = ''Globex Corporation'', t_plan = Free,
     t_created_at = 0\<rparr>"

definition ex_user :: "int \<Rightarrow> string \<Rightarrow> role \<Rightarrow> int \<Rightarrow> user_row" where
  "ex_user i em r tid =
     \<lparr>u_id = i, u_email = em, u_password_hash = bcrypt_hash ''password'' 10 ''s'',
       u_role = r, u_tenant_id = tid, u_created_at = 0\<rparr>"

definition ex_state :: state where
  "ex_state =
     \<lparr>tbl_tenants = [ex_acme, ex_globex],
      tbl_users =
        [ex_user 1 ''admin@acme.test'' Admin 1, ex_user 2 ''user@acme.test'' Member 1,
         ex_user 3 ''admin@globex.test'' Admin 2, ex_user 4 ''user@globex.test'' Member 2],
      tbl_notes = [ex_note1, ex_note2, ex_note3],
      tenants_seq = 3, users_seq = 5, notes_seq = 4, initialized = True\<rparr>"

definition ex_state_full :: state where
  "ex_state_full = ex_state\<lparr>tbl_notes := [ex_note1, ex_note2, ex_note3, ex_note4], notes_seq := 5\<rparr>"

section \<open>Initialisation always succeeds\<close>

text \<open>
  The default tenants exist once the first statement has run, so neither the read of
  \<open>acmeTenant.id\<close> nor the foreign key of the default users can fail. Initialisation
  leaves the notes alone and only appends to the other two tables.
\<close>

lemma rows0_None: "rows0 ys = None \<longleftrightarrow> ys = []"
  by (cases ys) (simp_all add: rows0_def)

lemma rows0_filter_None: "rows0 (filter P xs) = None \<longleftrightarrow> (\<forall>x \<in> set xs. \<not> P x)"
  by (simp add: rows0_None filter_empty_conv)

lemma rows0_filter_Some: "rows0 (filter P xs) = Some x \<Longrightarrow> x \<in> set xs \<and> P x"
proof -
  assume "rows0 (filter P xs) = Some x"
  then obtain ys where "filter P xs = x # ys"
    by (auto simp: rows0_def split: list.splits)
  then have "x \<in> set (filter P xs)" by simp
  then show ?thesis by simp
qed

lemma rows0_filter_append:
  "rows0 (filter P xs) = Some x \<Longrightarrow> rows0 (filter P (xs @ ys)) = Some x"
  by (auto simp: rows0_def split: list.splits)

lemma tenants_insert_frame:
  "tbl_notes (insert_tenants_do_nothing vs now s) = tbl_notes s \<and>
   tbl_users (insert_tenants_do_nothing vs now s) = tbl_users s \<and>
   notes_seq (insert_tenants_do_nothing vs now s) = notes_seq s \<and>
   users_seq (insert_tenants_do_nothing vs now s) = users_seq s \<and>
   initialized (insert_tenants_do_nothing vs now s) = initialized s"
proof (induction vs arbitrary: s)
  case Nil
  show ?case by simp
next
  case (Cons v vs)
  obtain slug name p where v: "v = (slug, name, p)" by (cases v) auto
  show ?case unfolding v by (simp add: Let_def Cons.IH)
qed

lemma tenants_insert_prefix:
  "\<exists>ts. tbl_tenants (insert_tenants_do_nothing vs now s) = tbl_tenants s @ ts"
proof (induction vs arbitrary: s)
  case Nil
  show ?case by simp
next
  case (Cons v vs)
  obtain slug name p where v: "v = (slug, name, p)" by (cases v) auto
  let ?s1 = "s\<lparr>tenants_seq := tenants_seq s + 1\<rparr>"
  let ?row = "\<lparr>t_id = tenants_seq s, t_slug = slug, t_name = name, t_plan = p, t_created_at = now\<rparr>"
  show ?case
  proof (cases "\<exists>t \<in> set (tbl_tenants s). t_slug t = slug")
    case True
    with Cons.IH [of ?s1] show ?thesis unfolding v by (simp add: Let_def)
  next
    case False
    with Cons.IH [of "?s1\<lparr>tbl_tenants := tbl_tenants s @ [?row]\<rparr>"]
    show ?thesis unfolding v by (auto simp add: Let_def)
  qed
qed

lemma tenants_insert_slug:
  "(slug, name, p) \<in> set vs \<Longrightarrow>
   \<exists>t \<in> set (tbl_tenants (insert_tenants_do_nothing vs now s)). t_slug t = slug"
proof (induction vs arbitrary: s)
  case Nil
  then show ?case by simp
next
  case (Cons v vs)
  obtain slug' name' p' where v: "v = (slug', name', p')" by (cases v) auto
  let ?s1 = "s\<lparr>tenants_seq := tenants_seq s + 1\<rparr>"
  let ?s2 = "if \<exists>t \<in> set (tbl_tenants s). t_slug t = slug' then ?s1
         else ?s1\<lparr>tbl_tenants := tbl_tenants s @
                [\<lparr>t_id = tenants_seq s, t_slug = slug', t_name = name', t_plan = p', t_created_at = now\<rparr>]\<rparr>"
  have step: "insert_tenants_do_nothing (v # vs) now s = insert_tenants_do_nothing vs now ?s2"
    unfolding v by (simp add: Let_def)
  show ?case
  proof (cases "(slug, name, p) \<in> set vs")
    case True
    then show ?thesis unfolding step by (rule Cons.IH)
  next
    case False
    with Cons.prems v have eq: "slug = slug'" by simp
    have "\<exists>t \<in> set (tbl_tenants ?s2). t_slug t = slug'" by auto
    moreover obtain ts where "tbl_tenants (insert_tenants_do_nothing vs now ?s2) = tbl_tenants ?s2 @ ts"
      using tenants_insert_prefix by blast
    ultimately have "\<exists>t \<in> set (tbl_tenants (insert_tenants_do_nothing vs now ?s2)). t_slug t = slug'"
      by auto
    then show ?thesis unfolding step eq .
  qed
qed

lemma users_rows_frame:
  "tbl_notes (snd (insert_users_rows vs now s)) = tbl_notes s \<and>
   tbl_tenants (snd (insert_users_rows vs now s)) = tbl_tenants s \<and>
   notes_seq (snd (insert_users_rows vs now s)) = notes_seq s \<and>
   tenants_seq (snd (insert_users_rows vs now s)) = tenants_seq s \<and>
   initialized (snd (insert_users_rows vs now s)) = initialized s"
proof (induction vs arbitrary: s)
  case Nil
  show ?case by simp
next
  case (Cons v vs)
  obtain em h r tid where v: "v = (em, h, r, tid)" by (cases v) auto
  show ?case unfolding v by (simp add: Let_def Cons.IH)
qed

lemma users_rows_prefix:
  "\<exists>us. tbl_users (snd (insert_users_rows vs now s)) = tbl_users s @ us"
proof (induction vs arbitrary: s)
  case Nil
  show ?case by simp
next
  case (Cons v vs)
  obtain em h r tid where v: "v = (em, h, r, tid)" by (cases v) auto
  let ?s1 = "s\<lparr>users_seq := users_seq s + 1\<rparr>"
  let ?row = "\<lparr>u_id = users_seq s, u_email = em, u_password_hash = h, u_role = r,
                  u_tenant_id = tid, u_created_at = now\<rparr>"
  from Cons.IH [of ?s1] Cons.IH [of "?s1\<lparr>tbl_users := tbl_users s @ [?row]\<rparr>"]
  show ?case unfolding v by (auto simp add: Let_def)
qed

lemma users_rows_ok:
  "\<forall>v \<in> set vs. \<exists>t \<in> set (tbl_tenants s). t_id t = snd (snd (snd v)) \<Longrightarrow>
   fst (insert_users_rows vs now s) = None"
proof (induction vs arbitrary: s)
  case Nil
  show ?case by simp
next
  case (Cons v vs)
  obtain em h r tid where v: "v = (em, h, r, tid)" by (cases v) auto
  let ?s1 = "s\<lparr>users_seq := users_seq s + 1\<rparr>"
  let ?row = "\<lparr>u_id = users_seq s, u_email = em, u_password_hash = h, u_role = r,
                  u_tenant_id = tid, u_created_at = now\<rparr>"
  from Cons.prems have fk: "\<exists>t \<in> set (tbl_tenants s). t_id t = tid" by (simp add: v)
  from Cons.prems have rest1: "\<forall>v \<in> set vs. \<exists>t \<in> set (tbl_tenants ?s1). t_id t = snd (snd (snd v))"
    by simp
  from Cons.prems have rest2:
    "\<forall>v \<in> set vs. \<exists>t \<in> set (tbl_tenants (?s1\<lparr>tbl_users := tbl_users s @ [?row]\<rparr>)). t_id t = snd (snd (snd v))"
    by simp
  from Cons.IH [OF rest1] Cons.IH [OF rest2] fk
  show ?case unfolding v by (simp add: Let_def)
qed

lemma users_do_nothing_ok:
  assumes "\<forall>v \<in> set vs. \<exists>t \<in> set (tbl_tenants s). t_id t = snd (snd (snd v))"
  shows "\<exists>s'. insert_users_do_nothing vs now s = (None, s') \<and>
           tbl_notes s' = tbl_notes s \<and> tbl_tenants s' = tbl_tenants s \<and>
           notes_seq s' = notes_seq s \<and> (\<exists>us. tbl_users s' = tbl_users s @ us)"
proof -
  obtain r s' where r: "insert_users_rows vs now s = (r, s')" by (cases "insert_users_rows vs now s")
  with users_rows_ok [OF assms, of now] have "r = None" by simp
  moreover from r users_rows_frame [of vs now s] users_rows_prefix [of vs now s]
  have "tbl_notes s' = tbl_notes s \<and> tbl_tenants s' = tbl_tenants s \<and>
           notes_seq s' = notes_seq s \<and> (\<exists>us. tbl_users s' = tbl_users s @ us)" by simp
  ultimately show ?thesis using r by (simp add: insert_users_do_nothing_def)
qed

lemma initializeDatabase_ok:
  "\<exists>s'. initializeDatabase e s = (None, s') \<and> initialized s' \<and>
     tbl_notes s' = tbl_notes s \<and> notes_seq s' = notes_seq s \<and>
     (\<exists>ts. tbl_tenants s' = tbl_tenants s @ ts) \<and> (\<exists>us. tbl_users s' = tbl_users s @ us)"
proof (cases "initialized s")
  case True
  then show ?thesis by (simp add: initializeDatabase_def)
next
  case False
  let ?vs = "[(''acme'', ''Acme Corporation'', Free), (''globex'', ''Globex Corporation'', Free)]"
  let ?h = "bcrypt_hash ''password'' 10 (salt e)"
  define s1 where "s1 = insert_tenants_do_nothing ?vs (clock e) s"
  have fr1: "tbl_notes s1 = tbl_notes s" "tbl_users s1 = tbl_users s" "notes_seq s1 = notes_seq s"
    using tenants_insert_frame [of ?vs "clock e" s] by (simp_all add: s1_def)
  obtain ts where ts: "tbl_tenants s1 = tbl_tenants s @ ts"
    using tenants_insert_prefix [of ?vs "clock e" s] unfolding s1_def by blast
  have "\<exists>t \<in> set (tbl_tenants s1). t_slug t = ''acme''"
    unfolding s1_def by (rule tenants_insert_slug [where name = "''Acme Corporation''" and p = Free]) simp
  then obtain a where a: "rows0 (filter (\<lambda>t. t_slug t = ''acme'') (tbl_tenants s1)) = Some a"
    using rows0_filter_None [of "\<lambda>t. t_slug t = ''acme''" "tbl_tenants s1"] by fastforce
  have "\<exists>t \<in> set (tbl_tenants s1). t_slug t = ''globex''"
    unfolding s1_def by (rule tenants_insert_slug [where name = "''Globex Corporation''" and p = Free]) simp
  then obtain g where g: "rows0 (filter (\<lambda>t. t_slug t = ''globex'') (tbl_tenants s1)) = Some g"
    using rows0_filter_None [of "\<lambda>t. t_slug t = ''globex''" "tbl_tenants s1"] by fastforce
  from rows0_filter_Some [OF a] have a_in: "a \<in> set (tbl_tenants s1)" by simp
  from rows0_filter_Some [OF g] have g_in: "g \<in> set (tbl_tenants s1)" by simp
  let ?us1 = "[(''admin@acme.test'', ?h, Admin, t_id a), (''user@acme.test'', ?h, Member, t_id a)]"
  have "\<forall>v \<in> set ?us1. \<exists>t \<in> set (tbl_tenants s1). t_id t = snd (snd (snd v))"
    using a_in by auto
  from users_do_nothing_ok [OF this, of "clock e"]
  obtain s2 us2 where s2: "insert_users_do_nothing ?us1 (clock e) s1 = (None, s2)"
    "tbl_notes s2 = tbl_notes s1" "tbl_tenants s2 = tbl_tenants s1" "notes_seq s2 = notes_seq s1"
    "tbl_users s2 = tbl_users s1 @ us2" by blast
  let ?us2 = "[(''admin@globex.test'', ?h, Admin, t_id g), (''user@globex.test'', ?h, Member, t_id g)]"
  have "\<forall>v \<in> set ?us2. \<exists>t \<in> set (tbl_tenants s2). t_id t = snd (snd (snd v))"
    using g_in s2(3) by auto
  from users_do_nothing_ok [OF this, of "clock e"]
  obtain s3 us3 where s3: "insert_users_do_nothing ?us2 (clock e) s2 = (None, s3)"
    "tbl_notes s3 = tbl_notes s2" "tbl_tenants s3 = tbl_tenants s2" "notes_seq s3 = notes_seq s2"
    "tbl_users s3 = tbl_users s2 @ us3" by blast
  have "initializeDatabase e s = (None, s3\<lparr>initialized := True\<rparr>)"
    using False a g s2(1) s3(1) unfolding initializeDatabase_def s1_def [symmetric] Let_def
    by simp
  moreover have "tbl_notes s3 = tbl_notes s" "notes_seq s3 = notes_seq s"
    "tbl_tenants s3 = tbl_tenants s @ ts" "tbl_users s3 = tbl_users s @ (us2 @ us3)"
    using fr1 ts s2 s3 by simp_all
  ultimately show ?thesis by simp
qed

lemma initializeDatabase_notes:
  obtains s1 where "initializeDatabase e s = (None, s1)" "initialised e s = s1"
    "tbl_notes s1 = tbl_notes s"
  using initializeDatabase_ok [of e s] unfolding initialised_def by fastforce

lemma initializeDatabase_tables:
  obtains s1 ts us where "initializeDatabase e s = (None, s1)" "initialised e s = s1"
    "tbl_notes s1 = tbl_notes s" "notes_seq s1 = notes_seq s"
    "tbl_tenants s1 = tbl_tenants s @ ts" "tbl_users s1 = tbl_users s @ us"
  using initializeDatabase_ok [of e s] unfolding initialised_def by fastforce

lemma initialised_notes: "tbl_notes (initialised e s) = tbl_notes s"
  using initializeDatabase_ok [of e s] by (auto simp: initialised_def)

lemma initialised_initialized: "initialized (initialised e s)"
  using initializeDatabase_ok [of e s] by (auto simp: initialised_def)

lemma initializeDatabase_idle: "initialized s \<Longrightarrow> initializeDatabase e s = (None, s)"
  by (simp add: initializeDatabase_def)

section \<open>The middleware on a token that verifies\<close>

lemma requireAuth_decoded:
  assumes "jwt_verify tok (JWT_SECRET e) (clock e) = Inr c"
  shows "requireAuth rr e (Some (Bearer tok)) next s =
           (case rr of
              None \<Rightarrow> next c s
            | Some r \<Rightarrow> if role c \<noteq> r then (Response 403 (ErrorBody ''Forbidden''), s)
                        else next c s)"
  using assms by (simp add: requireAuth_def)

section \<open>Looking a note up by its primary key\<close>

text \<open>
  \<open>id\<close> is the primary key of \<open>notes\<close>: the ids of the table are distinct. Under
  that constraint the tenant-scoped lookup of the note handlers finds a note of the caller's
  tenant, and finds nothing for a note of another tenant.
\<close>

lemma distinct_key_eq:
  "distinct (map f xs) \<Longrightarrow> x \<in> set xs \<Longrightarrow> y \<in> set xs \<Longrightarrow> f x = f y \<Longrightarrow> x = y"
  by (meson distinct_map inj_on_def)

lemma lookup_foreign:
  assumes "distinct (map n_id ns)" "n \<in> set ns" "n_tenant_id n \<noteq> tid"
  shows "rows0 (filter (\<lambda>x. n_id x = n_id n \<and> n_tenant_id x = tid) ns) = None"
proof -
  have "\<forall>x \<in> set ns. \<not> (n_id x = n_id n \<and> n_tenant_id x = tid)"
    using assms distinct_key_eq [of n_id ns _ n] by blast
  then show ?thesis by (rule rows0_filter_None [THEN iffD2])
qed

lemma lookup_own:
  assumes "distinct (map n_id ns)" "n \<in> set ns" "n_tenant_id n = tid"
  shows "rows0 (filter (\<lambda>x. n_id x = n_id n \<and> n_tenant_id x = tid) ns) = Some n"
proof -
  let ?P = "\<lambda>x. n_id x = n_id n \<and> n_tenant_id x = tid"
  have "rows0 (filter ?P ns) \<noteq> None"
    using assms by (auto simp: rows0_filter_None)
  then obtain y where y: "rows0 (filter ?P ns) = Some y" by blast
  from rows0_filter_Some [OF y] have "y \<in> set ns" "n_id y = n_id n" by simp_all
  with assms have "y = n" using distinct_key_eq [of n_id ns y n] by blast
  with y show ?thesis by simp
qed

lemma lookup_absent:
  assumes "m \<notin> n_id ` set ns"
  shows "rows0 (filter (\<lambda>x. n_id x = m \<and> n_tenant_id x = tid) ns) = None"
proof -
  have "\<forall>x \<in> set ns. \<not> (n_id x = m \<and> n_tenant_id x = tid)"
    using assms by auto
  then show ?thesis by (rule rows0_filter_None [THEN iffD2])
qed

lemma rows0_filter_last:
  assumes "\<forall>x \<in> set xs. \<not> P x" "P y"
  shows "rows0 (filter P (xs @ [y])) = Some y"
proof -
  from assms(1) have "filter P xs = []" by (simp add: filter_empty_conv)
  with assms(2) show ?thesis by (simp add: rows0_def)
qed

lemma set_clause_id [simp]: "n_id (set_clause t c now n) = n_id n"
  by (simp add: set_clause_def)

lemma map_update_by_key:
  assumes "distinct (map n_id ns)" "n \<in> set ns"
  shows "map (\<lambda>x. if n_id x = n_id n then f x else x) ns = map (\<lambda>x. if x = n then f n else x) ns"
proof (rule map_cong [OF refl])
  fix x assume "x \<in> set ns"
  with assms have "n_id x = n_id n \<longleftrightarrow> x = n"
    using distinct_key_eq [of n_id ns x n] by blast
  then show "(if n_id x = n_id n then f x else x) = (if x = n then f n else x)" by auto
qed

lemma returning_updated:
  assumes "distinct (map n_id ns)" "n \<in> set ns" "n_id (f n) = n_id n"
  shows "rows0 (filter (\<lambda>x. n_id x = n_id n) (map (\<lambda>x. if n_id x = n_id n then f x else x) ns)) =
           Some (f n)"
proof -
  let ?ms = "map (\<lambda>x. if x = n then f n else x) ns"
  let ?P = "\<lambda>x. n_id x = n_id n"
  have in_ms: "f n \<in> set ?ms" using assms(2) by force
  then have "rows0 (filter ?P ?ms) \<noteq> None"
    using assms(3) rows0_filter_None [of ?P ?ms] by blast
  then obtain y where y: "rows0 (filter ?P ?ms) = Some y" by blast
  from rows0_filter_Some [OF y] have "y \<in> set ?ms" "n_id y = n_id n" by simp_all
  then obtain x where x: "x \<in> set ns" "y = (if x = n then f n else x)" by auto
  have "y = f n"
  proof (cases "x = n")
    case True
    with x show ?thesis by simp
  next
    case False
    with x \<open>n_id y = n_id n\<close> assms distinct_key_eq [of n_id ns x n] show ?thesis by auto
  qed
  with y show ?thesis by (simp add: map_update_by_key [OF assms(1,2)])
qed

section \<open>What each handler answers\<close>

lemma truthy_prepareValue: "\<not> falsy v \<Longrightarrow> \<exists>t. prepareValue v = Some t"
  by (cases v) simp_all

lemma get_foreign:
  assumes "distinct (map n_id (tbl_notes s))" "n \<in> set (tbl_notes s)" "n_tenant_id n \<noteq> tenantId c"
  shows "get_notes_id e (Some (n_id n)) c s =
           (if int4 (n_id n) then (Response 404 (ErrorBody ''Note not found''), initialised e s)
            else (Response 500 (ErrorBody ''Failed to fetch note''), initialised e s))"
proof -
  obtain s1 where i: "initializeDatabase e s = (None, s1)" "initialised e s = s1"
    "tbl_notes s1 = tbl_notes s" by (rule initializeDatabase_notes)
  show ?thesis
    using i lookup_foreign [OF assms] by (simp add: get_notes_id_def int4_in_def)
qed

lemma put_foreign:
  assumes "distinct (map n_id (tbl_notes s))" "n \<in> set (tbl_notes s)" "n_tenant_id n \<noteq> tenantId c"
  shows "put_notes_id e (Some (n_id n)) (Some b) c s =
           (if int4 (n_id n) then (Response 404 (ErrorBody ''Note not found''), initialised e s)
            else (Response 500 (ErrorBody ''Failed to update note''), initialised e s))"
proof -
  obtain s1 where i: "initializeDatabase e s = (None, s1)" "initialised e s = s1"
    "tbl_notes s1 = tbl_notes s" by (rule initializeDatabase_notes)
  show ?thesis
    using i lookup_foreign [OF assms] by (simp add: put_notes_id_def int4_in_def)
qed

lemma put_null_body: "put_notes_id e pid None c s = (Uncaught, initialised e s)"
proof -
  obtain s1 where i: "initializeDatabase e s = (None, s1)" "initialised e s = s1"
    "tbl_notes s1 = tbl_notes s" by (rule initializeDatabase_notes)
  then show ?thesis by (simp add: put_notes_id_def)
qed

lemma delete_foreign:
  assumes "distinct (map n_id (tbl_notes s))" "n \<in> set (tbl_notes s)" "n_tenant_id n \<noteq> tenantId c"
  shows "delete_notes_id e (Some (n_id n)) c s =
           (if int4 (n_id n) then (Response 404 (ErrorBody ''Note not found''), initialised e s)
            else (Response 500 (ErrorBody ''Failed to delete note''), initialised e s))"
proof -
  obtain s1 where i: "initializeDatabase e s = (None, s1)" "initialised e s = s1"
    "tbl_notes s1 = tbl_notes s" by (rule initializeDatabase_notes)
  show ?thesis
    using i lookup_foreign [OF assms] by (simp add: delete_notes_id_def int4_in_def)
qed

lemma get_absent:
  assumes "m \<notin> n_id ` set (tbl_notes s)" "int4 m"
  shows "get_notes_id e (Some m) c s = (Response 404 (ErrorBody ''Note not found''), initialised e s)"
proof -
  obtain s1 where i: "initializeDatabase e s = (None, s1)" "initialised e s = s1"
    "tbl_notes s1 = tbl_notes s" by (rule initializeDatabase_notes)
  show ?thesis
    using i assms(2) lookup_absent [OF assms(1)] by (simp add: get_notes_id_def int4_in_def)
qed

lemma put_absent:
  assumes "m \<notin> n_id ` set (tbl_notes s)" "int4 m"
  shows "put_notes_id e (Some m) (Some b) c s =
           (Response 404 (ErrorBody ''Note not found''), initialised e s)"
proof -
  obtain s1 where i: "initializeDatabase e s = (None, s1)" "initialised e s = s1"
    "tbl_notes s1 = tbl_notes s" by (rule initializeDatabase_notes)
  show ?thesis
    using i assms(2) lookup_absent [OF assms(1)] by (simp add: put_notes_id_def int4_in_def)
qed

lemma delete_absent:
  assumes "m \<notin> n_id ` set (tbl_notes s)" "int4 m"
  shows "delete_notes_id e (Some m) c s = (Response 404 (ErrorBody ''Note not found''), initialised e s)"
proof -
  obtain s1 where i: "initializeDatabase e s = (None, s1)" "initialised e s = s1"
    "tbl_notes s1 = tbl_notes s" by (rule initializeDatabase_notes)
  show ?thesis
    using i assms(2) lookup_absent [OF assms(1)] by (simp add: delete_notes_id_def int4_in_def)
qed

lemma update_note_accepted:
  "text_ok t \<Longrightarrow> text_ok ct \<Longrightarrow>
   update_note t ct i now s =
     (None, s\<lparr>tbl_notes := map (\<lambda>n. if n_id n = i then set_clause t ct now n else n) (tbl_notes s)\<rparr>)"
  by (simp add: update_note_def)

lemma update_note_rejected:
  "\<not> (text_ok t \<and> text_ok ct) \<Longrightarrow> update_note t ct i now s = (Some PgInvalidByteSequence, s)"
  by (auto simp: update_note_def)

lemma put_allowed:
  assumes "distinct (map n_id (tbl_notes s))" "n \<in> set (tbl_notes s)" "n_tenant_id n = tenantId c"
    and "\<not> (role c = Member \<and> n_user_id n \<noteq> sub c)"
    and "int4 (n_id n)" "bindable (nb_title b)" "bindable (nb_content b)"
  shows "put_notes_id e (Some (n_id n)) (Some b) c s =
           (Response 200
              (NoteBody (returning (set_clause (prepareValue (nb_title b))
                 (prepareValue (nb_content b)) (clock e) n))),
            (initialised e s)
              \<lparr>tbl_notes :=
                 map (\<lambda>x. if x = n
                           then set_clause (prepareValue (nb_title b))
                                  (prepareValue (nb_content b)) (clock e) n
                           else x) (tbl_notes s)\<rparr>)"
proof -
  let ?t = "prepareValue (nb_title b)" and ?ct = "prepareValue (nb_content b)"
  obtain s1 where i: "initializeDatabase e s = (None, s1)" "initialised e s = s1"
    "tbl_notes s1 = tbl_notes s" by (rule initializeDatabase_notes)
  from assms(6,7) have ok: "text_ok ?t" "text_ok ?ct" by (simp_all add: bindable_def)
  have u: "update_note ?t ?ct (n_id n) (clock e) s1 =
      (None, s1\<lparr>tbl_notes := map (\<lambda>x. if x = n then set_clause ?t ?ct (clock e) n else x)
         (tbl_notes s)\<rparr>)"
    unfolding update_note_accepted [OF ok] i(3)
    using map_update_by_key [OF assms(1,2), of "set_clause ?t ?ct (clock e)"] by simp
  have r: "rows0 (filter (\<lambda>x. n_id x = n_id n)
             (map (\<lambda>x. if x = n then set_clause ?t ?ct (clock e) n else x) (tbl_notes s))) =
           Some (set_clause ?t ?ct (clock e) n)"
    using returning_updated [OF assms(1,2), of "set_clause ?t ?ct (clock e)"]
    by (simp add: map_update_by_key [OF assms(1,2)])
  show ?thesis
    using i assms(4,5) lookup_own [OF assms(1-3)] u r
    by (simp add: put_notes_id_def int4_in_def)
qed

lemma put_text_rejected:
  assumes "distinct (map n_id (tbl_notes s))" "n \<in> set (tbl_notes s)" "n_tenant_id n = tenantId c"
    and "\<not> (role c = Member \<and> n_user_id n \<noteq> sub c)"
    and "int4 (n_id n)" "\<not> (bindable (nb_title b) \<and> bindable (nb_content b))"
  shows "put_notes_id e (Some (n_id n)) (Some b) c s =
           (Response 500 (ErrorBody ''Failed to update note''), initialised e s)"
proof -
  let ?t = "prepareValue (nb_title b)" and ?ct = "prepareValue (nb_content b)"
  obtain s1 where i: "initializeDatabase e s = (None, s1)" "initialised e s = s1"
    "tbl_notes s1 = tbl_notes s" by (rule initializeDatabase_notes)
  from assms(6) have "\<not> (text_ok ?t \<and> text_ok ?ct)" by (simp add: bindable_def)
  from update_note_rejected [OF this]
  have u: "update_note ?t ?ct (n_id n) (clock e) s1 = (Some PgInvalidByteSequence, s1)" .
  show ?thesis
    using i assms(4,5) lookup_own [OF assms(1-3)] u
    by (simp add: put_notes_id_def int4_in_def)
qed

lemma put_denied:
  assumes "distinct (map n_id (tbl_notes s))" "n \<in> set (tbl_notes s)" "n_tenant_id n = tenantId c"
    and "role c = Member" "n_user_id n \<noteq> sub c" "int4 (n_id n)"
  shows "put_notes_id e (Some (n_id n)) (Some b) c s =
           (Response 403 (ErrorBody ''Forbidden: You can only edit your own notes''), initialised e s)"
proof -
  obtain s1 where i: "initializeDatabase e s = (None, s1)" "initialised e s = s1"
    "tbl_notes s1 = tbl_notes s" by (rule initializeDatabase_notes)
  show ?thesis
    using i assms(4-6) lookup_own [OF assms(1-3)] by (simp add: put_notes_id_def int4_in_def)
qed

lemma delete_denied:
  assumes "distinct (map n_id (tbl_notes s))" "n \<in> set (tbl_notes s)" "n_tenant_id n = tenantId c"
    and "role c = Member" "n_user_id n \<noteq> sub c" "int4 (n_id n)"
  shows "delete_notes_id e (Some (n_id n)) c s =
           (Response 403 (ErrorBody ''Forbidden: You can only delete your own notes''), initialised e s)"
proof -
  obtain s1 where i: "initializeDatabase e s = (None, s1)" "initialised e s = s1"
    "tbl_notes s1 = tbl_notes s" by (rule initializeDatabase_notes)
  show ?thesis
    using i assms(4-6) lookup_own [OF assms(1-3)] by (simp add: delete_notes_id_def int4_in_def)
qed

lemma delete_allowed:
  assumes "distinct (map n_id (tbl_notes s))" "n \<in> set (tbl_notes s)" "n_tenant_id n = tenantId c"
    and "\<not> (role c = Member \<and> n_user_id n \<noteq> sub c)" "int4 (n_id n)"
  shows "delete_notes_id e (Some (n_id n)) c s =
           (Response 200 SuccessBody, delete_note (n_id n) (initialised e s))"
proof -
  obtain s1 where i: "initializeDatabase e s = (None, s1)" "initialised e s = s1"
    "tbl_notes s1 = tbl_notes s" by (rule initializeDatabase_notes)
  show ?thesis
    using i assms(4,5) lookup_own [OF assms(1-3)] by (simp add: delete_notes_id_def int4_in_def)
qed

lemma delete_note_notes:
  assumes "distinct (map n_id (tbl_notes s))" "n \<in> set (tbl_notes s)"
  shows "tbl_notes (delete_note (n_id n) (initialised e s)) = filter (\<lambda>x. x \<noteq> n) (tbl_notes s)"
proof -
  have "filter (\<lambda>x. n_id x \<noteq> n_id n) (tbl_notes s) = filter (\<lambda>x. x \<noteq> n) (tbl_notes s)"
    using assms distinct_key_eq [of n_id "tbl_notes s" _ n] by (intro filter_cong) auto
  then show ?thesis by (simp add: delete_note_def initialised_notes)
qed

lemma insert_note_accepted:
  assumes "text_ok (Some t)" "text_ok (Some ct)"
    and "\<exists>x \<in> set (tbl_tenants s). t_id x = tid" "\<exists>u \<in> set (tbl_users s). u_id u = uid"
  shows "insert_note tid uid (Some t) (Some ct) now s =
           (Inr \<lparr>n_id = notes_seq s, n_tenant_id = tid, n_user_id = uid, n_title = t,
                 n_content = ct, n_created_at = now, n_updated_at = now\<rparr>,
            s\<lparr>notes_seq := notes_seq s + 1,
              tbl_notes := tbl_notes s @
                [\<lparr>n_id = notes_seq s, n_tenant_id = tid, n_user_id = uid, n_title = t,
                  n_content = ct, n_created_at = now, n_updated_at = now\<rparr>]\<rparr>)"
  using assms by (simp add: insert_note_def Let_def)

lemma post_notes_result:
  assumes "\<not> falsy (nb_title b)" "\<not> falsy (nb_content b)"
    and "bindable (nb_title b)" "bindable (nb_content b)"
    and "prepareValue (nb_title b) = Some t" "prepareValue (nb_content b) = Some ct"
    and "rows0 (filter (\<lambda>x. t_id x = tenantId c) (tbl_tenants s)) = Some tenant"
    and "\<exists>u \<in> set (tbl_users s). u_id u = sub c"
  shows "post_notes e (Some b) c s =
           (if t_plan tenant = Free \<and> 3 \<le> note_count (tenantId c) s
            then (Response 402
                    (QuotaBody ''note_limit_reached''
                       ''Free plan is limited to 3 notes. Upgrade to Pro for unlimited notes.''),
                  initialised e s)
            else (Response 201
                    (NoteBody (returning
                       \<lparr>n_id = notes_seq s, n_tenant_id = tenantId c, n_user_id = sub c,
                         n_title = t, n_content = ct,
                         n_created_at = clock e, n_updated_at = clock e\<rparr>)),
                  (initialised e s)
                    \<lparr>notes_seq := notes_seq s + 1,
                      tbl_notes := tbl_notes s @
                        [\<lparr>n_id = notes_seq s, n_tenant_id = tenantId c, n_user_id = sub c,
                          n_title = t, n_content = ct,
                          n_created_at = clock e, n_updated_at = clock e\<rparr>]\<rparr>))"
proof -
  obtain s1 ts us where i: "initializeDatabase e s = (None, s1)" "initialised e s = s1"
    "tbl_notes s1 = tbl_notes s" "notes_seq s1 = notes_seq s"
    "tbl_tenants s1 = tbl_tenants s @ ts" "tbl_users s1 = tbl_users s @ us"
    by (rule initializeDatabase_tables)
  have t1: "rows0 (filter (\<lambda>x. t_id x = tenantId c) (tbl_tenants s1)) = Some tenant"
    unfolding i(5) by (rule rows0_filter_append [OF assms(7)])
  from rows0_filter_Some [OF t1] have fk1: "\<exists>x \<in> set (tbl_tenants s1). t_id x = tenantId c"
    by blast
  from assms(8) have fk2: "\<exists>u \<in> set (tbl_users s1). u_id u = sub c"
    unfolding i(6) by auto
  from assms(3-6) have ok: "text_ok (Some t)" "text_ok (Some ct)"
    by (simp_all add: bindable_def)
  note ins = insert_note_accepted [OF ok fk1 fk2, of "clock e"]
  show ?thesis
    using assms(1,2,5,6) i(1-4) t1 ins
    by (simp add: post_notes_def note_count_def)
qed

lemma post_tenants_upgrade_own:
  "post_tenants_upgrade e (tenantSlug c) c s =
     (Response 200 (UpgradeBody ''pro''), upgrade_tenant (tenantId c) (initialised e s))"
proof -
  obtain s1 where i: "initializeDatabase e s = (None, s1)" "initialised e s = s1"
    "tbl_notes s1 = tbl_notes s" by (rule initializeDatabase_notes)
  then show ?thesis by (simp add: post_tenants_upgrade_def)
qed

lemma upgrade_tenant_tenants:
  "tbl_tenants (upgrade_tenant tid s) =
     map (\<lambda>t. if t_id t = tid then t\<lparr>t_plan := Pro\<rparr> else t) (tbl_tenants s)"
  by (simp add: upgrade_tenant_def)

lemma upgrade_tenant_sets_pro:
  assumes "t \<in> set (tbl_tenants (upgrade_tenant tid s))" "t_id t = tid"
  shows "t_plan t = Pro"
proof -
  from assms(1) obtain x where x: "x \<in> set (tbl_tenants s)"
    "t = (if t_id x = tid then x\<lparr>t_plan := Pro\<rparr> else x)"
    unfolding upgrade_tenant_tenants by auto
  show ?thesis
  proof (cases "t_id x = tid")
    case True
    with x(2) show ?thesis by simp
  next
    case False
    with x(2) assms(2) show ?thesis by simp
  qed
qed

lemma upgrade_tenant_keeps:
  assumes "t \<in> set (tbl_tenants s)" "t_id t = tid"
  shows "t\<lparr>t_plan := Pro\<rparr> \<in> set (tbl_tenants (upgrade_tenant tid (initialised e s)))"
proof -
  let ?f = "\<lambda>t. if t_id t = tid then t\<lparr>t_plan := Pro\<rparr> else t"
  obtain s1 ts us where i: "initialised e s = s1" "tbl_tenants s1 = tbl_tenants s @ ts"
    by (rule initializeDatabase_tables)
  from assms(1) have "t \<in> set (tbl_tenants s1)" by (simp add: i(2))
  then have "?f t \<in> ?f ` set (tbl_tenants s1)" by (rule imageI)
  then have "?f t \<in> set (map ?f (tbl_tenants s1))" by (simp only: set_map)
  moreover have "?f t = t\<lparr>t_plan := Pro\<rparr>" using assms(2) by simp
  ultimately show ?thesis unfolding i(1) upgrade_tenant_tenants by simp
qed

lemma post_tenants_upgrade_other:
  "slug \<noteq> tenantSlug c \<Longrightarrow>
   post_tenants_upgrade e slug c s =
     (Response 403 (ErrorBody ''Forbidden: Cannot upgrade other tenants''), initialised e s)"
proof -
  assume a: "slug \<noteq> tenantSlug c"
  obtain s1 where i: "initializeDatabase e s = (None, s1)" "initialised e s = s1"
    "tbl_notes s1 = tbl_notes s" by (rule initializeDatabase_notes)
  with a show ?thesis by (simp add: post_tenants_upgrade_def)
qed

lemma post_tenants_invite_other:
  "slug \<noteq> tenantSlug c \<Longrightarrow>
   post_tenants_invite e slug b c s =
     (Response 403 (ErrorBody ''Forbidden: Cannot invite to other tenants''), initialised e s)"
proof -
  assume a: "slug \<noteq> tenantSlug c"
  obtain s1 where i: "initializeDatabase e s = (None, s1)" "initialised e s = s1"
    "tbl_notes s1 = tbl_notes s" by (rule initializeDatabase_notes)
  with a show ?thesis by (simp add: post_tenants_invite_def)
qed

lemma login_unknown_email:
  assumes "\<not> falsy (lb_email b)" "\<not> falsy (lb_password b)" "bindable (lb_email b)"
    and "\<forall>u \<in> set (tbl_users (initialised e s)). Some (u_email u) \<noteq> prepareValue (lb_email b)"
  shows "post_auth_login e (Some b) s =
           (Response 401 (ErrorBody ''Invalid credentials''), initialised e s)"
proof -
  obtain s1 where i: "initializeDatabase e s = (None, s1)" "initialised e s = s1"
    "tbl_notes s1 = tbl_notes s" by (rule initializeDatabase_notes)
  have "rows0 (filter (\<lambda>u. Some (u_email u) = prepareValue (lb_email b)) (tbl_users s1)) = None"
    using assms(4) unfolding i(2) by (intro rows0_filter_None [THEN iffD2])
  with assms(1-3) i(1,2) show ?thesis by (simp add: post_auth_login_def)
qed

lemma login_wrong_password:
  assumes "\<not> falsy (lb_email b)" "\<not> falsy (lb_password b)" "bindable (lb_email b)"
    and "rows0 (filter (\<lambda>u. Some (u_email u) = prepareValue (lb_email b))
           (tbl_users (initialised e s))) = Some user"
    and "lb_password b = JStr password"
    and "\<not> bcrypt_compare password (u_password_hash user)"
  shows "post_auth_login e (Some b) s =
           (Response 401 (ErrorBody ''Invalid credentials''), initialised e s)"
proof -
  obtain s1 where i: "initializeDatabase e s = (None, s1)" "initialised e s = s1"
    "tbl_notes s1 = tbl_notes s" by (rule initializeDatabase_notes)
  from assms i(1,2) show ?thesis by (simp add: post_auth_login_def)
qed

lemma login_password_not_text:
  assumes "\<not> falsy (lb_email b)" "\<not> falsy (lb_password b)" "bindable (lb_email b)"
    and "rows0 (filter (\<lambda>u. Some (u_email u) = prepareValue (lb_email b))
           (tbl_users (initialised e s))) = Some user"
    and "\<forall>password. lb_password b \<noteq> JStr password"
  shows "post_auth_login e (Some b) s =
           (Response 500 (ErrorBody ''Internal server error''), initialised e s)"
proof -
  obtain s1 where i: "initializeDatabase e s = (None, s1)" "initialised e s = s1"
    "tbl_notes s1 = tbl_notes s" by (rule initializeDatabase_notes)
  from assms i(1,2) show ?thesis
    by (cases "lb_password b") (simp_all add: post_auth_login_def)
qed

lemma text_password_failures_agree:
  assumes "\<not> falsy (lb_email b1)" "\<not> falsy (lb_password b1)" "bindable (lb_email b1)"
    and "\<not> falsy (lb_email b2)" "\<not> falsy (lb_password b2)" "bindable (lb_email b2)"
    and "\<forall>u \<in> set (tbl_users (initialised e s)). Some (u_email u) \<noteq> prepareValue (lb_email b1)"
    and "rows0 (filter (\<lambda>u. Some (u_email u) = prepareValue (lb_email b2))
           (tbl_users (initialised e s))) = Some user"
    and "lb_password b2 = JStr password"
    and "\<not> bcrypt_compare password (u_password_hash user)"
  shows "post_auth_login e (Some b1) s = post_auth_login e (Some b2) s \<and>
         fst (post_auth_login e (Some b1) s) = Response 401 (ErrorBody ''Invalid credentials'')"
  by (simp add: login_unknown_email [OF assms(1,2,3,7)]
      login_wrong_password [OF assms(4,5,6,8,9,10)])

lemma insert_user_success:
  assumes "insert_user p h r tid now s = (None, s')"
  shows "\<exists>em. p = Some em \<and> text_ok p \<and>
           (\<forall>u \<in> set (tbl_users s). u_email u \<noteq> em) \<and>
           (\<exists>t \<in> set (tbl_tenants s). t_id t = tid) \<and>
           s' = s\<lparr>users_seq := users_seq s + 1,
                  tbl_users := tbl_users s @
                    [\<lparr>u_id = users_seq s, u_email = em, u_password_hash = h, u_role = r,
                       u_tenant_id = tid, u_created_at = now\<rparr>]\<rparr>"
proof -
  from assms have ok: "text_ok p"
    by (cases "text_ok p") (simp_all add: insert_user_def)
  from assms ok obtain em where em: "p = Some em"
    by (cases p) (simp_all add: insert_user_def Let_def)
  have u: "\<forall>u \<in> set (tbl_users s). u_email u \<noteq> em"
  proof (rule ccontr)
    assume "\<not> ?thesis"
    then have "insert_user p h r tid now s = (Some PgUniqueViolation, s\<lparr>users_seq := users_seq s + 1\<rparr>)"
      using ok em by (simp add: insert_user_def Let_def)
    with assms show False by simp
  qed
  have t: "\<exists>t \<in> set (tbl_tenants s). t_id t = tid"
  proof (rule ccontr)
    assume "\<not> ?thesis"
    with u have "insert_user p h r tid now s =
      (Some PgForeignKeyViolation, s\<lparr>users_seq := users_seq s + 1\<rparr>)"
      using ok em by (simp add: insert_user_def Let_def)
    with assms show False by simp
  qed
  from u t ok em have "insert_user p h r tid now s =
      (None, s\<lparr>users_seq := users_seq s + 1, tbl_users := tbl_users s @
                [\<lparr>u_id = users_seq s, u_email = em, u_password_hash = h, u_role = r,
                  u_tenant_id = tid, u_created_at = now\<rparr>]\<rparr>)"
    by (simp add: insert_user_def Let_def)
  with assms have "s' = s\<lparr>users_seq := users_seq s + 1, tbl_users := tbl_users s @
                [\<lparr>u_id = users_seq s, u_email = em, u_password_hash = h, u_role = r,
                  u_tenant_id = tid, u_created_at = now\<rparr>]\<rparr>" by simp
  with em ok u t show ?thesis by blast
qed

lemma invite_outcome:
  "(case p of
      (None, s2) \<Rightarrow> (Response 200 SuccessBody, s2)
    | (Some PgUniqueViolation, s2) \<Rightarrow> (Response 409 (ErrorBody ''User already exists''), s2)
    | (Some _, s2) \<Rightarrow> (Response 500 (ErrorBody ''Failed to invite user''), s2)) =
   (Response 200 SuccessBody, s') \<Longrightarrow> p = (None, s')"
  by (cases p) (simp split: option.splits exn.splits)

lemma invite_handler_success:
  assumes "post_tenants_invite e slug (Some b) c s = (Response 200 SuccessBody, s')"
  shows "\<exists>em r. prepareValue (ib_email b) = Some em \<and> \<not> falsy (ib_email b) \<and>
           bindable (ib_email b) \<and>
           (\<forall>u \<in> set (tbl_users (initialised e s)). u_email u \<noteq> em) \<and>
           (\<exists>t \<in> set (tbl_tenants (initialised e s)). t_id t = tenantId c) \<and>
           s' = (initialised e s)
                  \<lparr>users_seq := users_seq (initialised e s) + 1,
                    tbl_users := tbl_users (initialised e s) @
                      [\<lparr>u_id = users_seq (initialised e s), u_email = em,
                         u_password_hash = bcrypt_hash ''password'' 10 (salt e), u_role = r,
                         u_tenant_id = tenantId c, u_created_at = clock e\<rparr>]\<rparr>"
proof -
  obtain s1 where i: "initializeDatabase e s = (None, s1)" "initialised e s = s1"
    "tbl_notes s1 = tbl_notes s" by (rule initializeDatabase_notes)
  from assms have sl: "slug = tenantSlug c"
    unfolding post_tenants_invite_def i(1) by (simp split: if_splits)
  from assms sl obtain r where
    r: "(if falsy (ib_email b) then None else role_of_json (ib_role b)) = Some r"
    unfolding post_tenants_invite_def i(1)
    by (cases "if falsy (ib_email b) then None else role_of_json (ib_role b)") simp_all
  then have tr: "\<not> falsy (ib_email b)" by (simp split: if_splits)
  let ?h = "bcrypt_hash ''password'' 10 (salt e)"
  from assms sl r have "(case insert_user (prepareValue (ib_email b)) ?h r (tenantId c) (clock e) s1 of
                    (None, s2) \<Rightarrow> (Response 200 SuccessBody, s2)
                  | (Some PgUniqueViolation, s2) \<Rightarrow>
                      (Response 409 (ErrorBody ''User already exists''), s2)
                  | (Some _, s2) \<Rightarrow>
                      (Response 500 (ErrorBody ''Failed to invite user''), s2)) =
        (Response 200 SuccessBody, s')"
    unfolding post_tenants_invite_def i(1) by (simp add: Let_def)
  then have "insert_user (prepareValue (ib_email b)) ?h r (tenantId c) (clock e) s1 = (None, s')"
    by (rule invite_outcome)
  from insert_user_success [OF this] tr show ?thesis
    unfolding i(2) bindable_def by blast
qed

lemma invite_route_success:
  assumes "route_invite e h slug b s = (Response 200 SuccessBody, s')"
  shows "\<exists>c. post_tenants_invite e slug b c s = (Response 200 SuccessBody, s')"
  using assms unfolding route_invite_def requireAuth_def
  by (auto split: option.splits auth_header.splits sum.splits if_splits)

section \<open>The primary key of the notes is kept\<close>

text \<open>
  Every request, whatever its input, takes a state in which the note ids are distinct and
  below the sequence to such a state, and the empty database is one. The distinctness the
  theorems below assume of the notes table is therefore no restriction on the states the
  service can reach.
\<close>

lemma pk_notes_same:
  "tbl_notes s' = tbl_notes s \<Longrightarrow> notes_seq s' = notes_seq s \<Longrightarrow> pk_notes s \<Longrightarrow> pk_notes s'"
  by (simp add: pk_notes_def)

lemma pk_notes_initialised: "pk_notes s \<Longrightarrow> pk_notes (initialised e s)"
  using initializeDatabase_ok [of e s] by (auto simp: initialised_def intro: pk_notes_same)

lemma map_set_clause_ids:
  "map n_id (map (\<lambda>n. if n_id n = i then set_clause t ct now n else n) xs) = map n_id xs"
  by (induction xs) simp_all

lemma update_note_ids:
  "map n_id (tbl_notes (snd (update_note t ct i now s))) = map n_id (tbl_notes s)"
proof (cases "text_ok t \<and> text_ok ct")
  case True
  then show ?thesis
    using map_set_clause_ids [of i t ct now "tbl_notes s"] by (simp add: update_note_accepted)
next
  case False
  then show ?thesis by (simp add: update_note_rejected)
qed

lemma update_note_seq: "notes_seq (snd (update_note t ct i now s)) = notes_seq s"
  by (simp add: update_note_def)

lemma pk_notes_update: "pk_notes s \<Longrightarrow> pk_notes (snd (update_note t ct i now s))"
proof -
  assume a: "pk_notes s"
  from a have "\<forall>k \<in> set (map n_id (tbl_notes s)). k < notes_seq s"
    by (simp add: pk_notes_def)
  then have "\<forall>k \<in> set (map n_id (tbl_notes (snd (update_note t ct i now s)))). k < notes_seq s"
    unfolding update_note_ids .
  then have "\<forall>n \<in> set (tbl_notes (snd (update_note t ct i now s))). n_id n < notes_seq s"
    by simp
  with a show ?thesis unfolding pk_notes_def update_note_ids update_note_seq by simp
qed

lemma pk_notes_delete: "pk_notes s \<Longrightarrow> pk_notes (delete_note i s)"
  by (auto simp: pk_notes_def delete_note_def distinct_map_filter)

lemma pk_notes_insert: "pk_notes s \<Longrightarrow> pk_notes (snd (insert_note tid uid t ct now s))"
proof (cases "text_ok t \<and> text_ok ct")
  case False
  assume "pk_notes s"
  with False show ?thesis by (auto simp: insert_note_def)
next
  case True
  assume a: "pk_notes s"
  show ?thesis
  proof (cases t)
    case None
    with True a show ?thesis by (auto simp: insert_note_def Let_def pk_notes_def)
  next
    case (Some x)
    show ?thesis
    proof (cases ct)
      case None
      with Some True a show ?thesis by (auto simp: insert_note_def Let_def pk_notes_def)
    next
      case (Some y)
      with \<open>t = Some x\<close> True a show ?thesis
        by (auto simp: insert_note_def Let_def pk_notes_def)
    qed
  qed
qed

lemma pk_notes_upgrade: "pk_notes s \<Longrightarrow> pk_notes (upgrade_tenant tid s)"
  by (simp add: pk_notes_def upgrade_tenant_def)

lemma pk_notes_insert_user: "pk_notes s \<Longrightarrow> pk_notes (snd (insert_user p h r tid now s))"
  by (cases p) (simp_all add: pk_notes_def insert_user_def Let_def)

lemma pk_notes_requireAuth:
  assumes "\<And>c. pk_notes (snd (next c s))" "pk_notes s"
  shows "pk_notes (snd (requireAuth rr e h next s))"
  using assms by (simp add: requireAuth_def split: option.splits auth_header.splits sum.splits)

lemma pk_notes_get: "pk_notes s \<Longrightarrow> pk_notes (snd (get_notes_id e pid c s))"
proof -
  assume a: "pk_notes s"
  obtain s1 where i: "initializeDatabase e s = (None, s1)" "initialised e s = s1"
    "tbl_notes s1 = tbl_notes s" by (rule initializeDatabase_notes)
  from pk_notes_initialised [OF a, of e] i(2) have "pk_notes s1" by simp
  then show ?thesis unfolding get_notes_id_def i(1) by (simp split: option.splits)
qed

lemma update_outcome_state:
  "snd (case p of (Some x, s2) \<Rightarrow> (a, s2) | (None, s2) \<Rightarrow> (f s2, s2)) = snd p"
  by (cases p) (simp split: option.splits)

lemma pk_notes_put: "pk_notes s \<Longrightarrow> pk_notes (snd (put_notes_id e pid b c s))"
proof -
  assume a: "pk_notes s"
  obtain s1 where i: "initializeDatabase e s = (None, s1)" "initialised e s = s1"
    "tbl_notes s1 = tbl_notes s" by (rule initializeDatabase_notes)
  from pk_notes_initialised [OF a, of e] i(2) have "pk_notes s1" by simp
  then show ?thesis unfolding put_notes_id_def i(1)
    by (simp add: pk_notes_update update_outcome_state split: option.splits)
qed

lemma pk_notes_delete_handler: "pk_notes s \<Longrightarrow> pk_notes (snd (delete_notes_id e pid c s))"
proof -
  assume a: "pk_notes s"
  obtain s1 where i: "initializeDatabase e s = (None, s1)" "initialised e s = s1"
    "tbl_notes s1 = tbl_notes s" by (rule initializeDatabase_notes)
  from pk_notes_initialised [OF a, of e] i(2) have "pk_notes s1" by simp
  then show ?thesis unfolding delete_notes_id_def i(1)
    by (simp add: pk_notes_delete split: option.splits)
qed

lemma create_outcome_state:
  "snd (case p of (Inl x, s2) \<Rightarrow> (a, s2) | (Inr row, s2) \<Rightarrow> (f row, s2)) = snd p"
  by (cases p) (simp split: sum.splits)

lemma pk_notes_post: "pk_notes s \<Longrightarrow> pk_notes (snd (post_notes e b c s))"
proof -
  assume a: "pk_notes s"
  obtain s1 where i: "initializeDatabase e s = (None, s1)" "initialised e s = s1"
    "tbl_notes s1 = tbl_notes s" by (rule initializeDatabase_notes)
  from pk_notes_initialised [OF a, of e] i(2) have s1: "pk_notes s1" by simp
  show ?thesis unfolding post_notes_def i(1)
    using s1 by (simp add: create_outcome_state pk_notes_insert split: option.splits)
qed

lemma pk_notes_upgrade_handler: "pk_notes s \<Longrightarrow> pk_notes (snd (post_tenants_upgrade e slug c s))"
proof -
  assume a: "pk_notes s"
  obtain s1 where i: "initializeDatabase e s = (None, s1)" "initialised e s = s1"
    "tbl_notes s1 = tbl_notes s" by (rule initializeDatabase_notes)
  from pk_notes_initialised [OF a, of e] i(2) have "pk_notes s1" by simp
  then show ?thesis unfolding post_tenants_upgrade_def i(1)
    by (simp add: pk_notes_upgrade)
qed

lemma invite_outcome_state:
  "snd (case p of
          (None, s2) \<Rightarrow> (a, s2)
        | (Some PgUniqueViolation, s2) \<Rightarrow> (b, s2)
        | (Some _, s2) \<Rightarrow> (c, s2)) = snd p"
  by (cases p) (simp split: option.splits exn.splits)

lemma pk_notes_invite_handler: "pk_notes s \<Longrightarrow> pk_notes (snd (post_tenants_invite e slug b c s))"
proof -
  assume a: "pk_notes s"
  obtain s1 where i: "initializeDatabase e s = (None, s1)" "initialised e s = s1"
    "tbl_notes s1 = tbl_notes s" by (rule initializeDatabase_notes)
  from pk_notes_initialised [OF a, of e] i(2) have s1: "pk_notes s1" by simp
  show ?thesis unfolding post_tenants_invite_def i(1)
    using s1 by (simp add: Let_def invite_outcome_state pk_notes_insert_user split: option.splits)
qed

lemma login_state: "snd (post_auth_login e b s) = initialised e s"
proof -
  obtain s1 where i: "initializeDatabase e s = (None, s1)" "initialised e s = s1"
    "tbl_notes s1 = tbl_notes s" by (rule initializeDatabase_notes)
  show ?thesis unfolding post_auth_login_def i(1) i(2)
    by (simp split: option.splits jsval.splits)
qed

lemma pk_notes_empty: "pk_notes empty_state"
  by (simp add: pk_notes_def empty_state_def)

lemma pk_notes_invariant:
  assumes "pk_notes s"
  shows "pk_notes (snd (post_auth_login e lb s))"
    and "pk_notes (snd (route_upgrade e h slug s))"
    and "pk_notes (snd (route_invite e h slug ib s))"
    and "pk_notes (snd (route_get_note e h pid s))"
    and "pk_notes (snd (route_create_note e h nb s))"
    and "pk_notes (snd (route_update_note e h pid nb s))"
    and "pk_notes (snd (route_delete_note e h pid s))"
  unfolding route_upgrade_def route_invite_def route_get_note_def route_create_note_def
    route_update_note_def route_delete_note_def login_state
  using assms
  by (simp_all add: pk_notes_initialised pk_notes_requireAuth pk_notes_get pk_notes_put
      pk_notes_delete_handler pk_notes_post pk_notes_upgrade_handler pk_notes_invite_handler)

section \<open>Notes of other tenants under any request\<close>

text \<open>
  Whatever id and body a note request names, the notes of every tenant but the caller's
  are the same before and after, and a note that is returned belongs to the caller's tenant.
\<close>

lemma filter_map_unchanged:
  "\<forall>x \<in> set xs. (P (g x) \<longleftrightarrow> P x) \<and> (P x \<longrightarrow> g x = x) \<Longrightarrow> filter P (map g xs) = filter P xs"
  by (induction xs) auto

lemma filter_filter_unchanged:
  "\<forall>x \<in> set xs. P x \<longrightarrow> Q x \<Longrightarrow> filter P (filter Q xs) = filter P xs"
  by (induction xs) auto

lemma set_clause_tenant [simp]: "n_tenant_id (set_clause t ct now n) = n_tenant_id n"
  by (simp add: set_clause_def)

lemma found_rows_are_own:
  assumes "distinct (map n_id ns)"
    and "rows0 (filter (\<lambda>x. n_id x = i \<and> n_tenant_id x = tid) ns) = Some found"
    and "x \<in> set ns" "n_id x = i"
  shows "n_tenant_id x = tid"
proof -
  from rows0_filter_Some [OF assms(2)] have "found \<in> set ns" "n_id found = i" "n_tenant_id found = tid"
    by simp_all
  with assms(1,3,4) distinct_key_eq [of n_id ns x found] show ?thesis by auto
qed

lemma update_note_other_tenants:
  assumes "distinct (map n_id (tbl_notes s))"
    and "rows0 (filter (\<lambda>n. n_id n = k \<and> n_tenant_id n = tid) (tbl_notes s)) = Some found"
  shows "filter (\<lambda>n. n_tenant_id n \<noteq> tid) (tbl_notes (snd (update_note t ct k now s))) =
         filter (\<lambda>n. n_tenant_id n \<noteq> tid) (tbl_notes s)"
proof (cases "text_ok t \<and> text_ok ct")
  case False
  then show ?thesis by (simp add: update_note_rejected)
next
  case True
  let ?g = "\<lambda>n. if n_id n = k then set_clause t ct now n else n"
  have "\<forall>x \<in> set (tbl_notes s). n_id x = k \<longrightarrow> n_tenant_id x = tid"
    using found_rows_are_own [OF assms] by blast
  then have "\<forall>x \<in> set (tbl_notes s).
      (n_tenant_id (?g x) \<noteq> tid \<longleftrightarrow> n_tenant_id x \<noteq> tid) \<and>
      (n_tenant_id x \<noteq> tid \<longrightarrow> ?g x = x)" by auto
  then have "filter (\<lambda>n. n_tenant_id n \<noteq> tid) (map ?g (tbl_notes s)) =
      filter (\<lambda>n. n_tenant_id n \<noteq> tid) (tbl_notes s)"
    by (rule filter_map_unchanged)
  with True show ?thesis by (simp add: update_note_accepted)
qed

lemma put_other_tenants:
  assumes "distinct (map n_id (tbl_notes s))"
  shows "filter (\<lambda>n. n_tenant_id n \<noteq> tenantId c) (tbl_notes (snd (put_notes_id e pid b c s))) =
         filter (\<lambda>n. n_tenant_id n \<noteq> tenantId c) (tbl_notes s)"
proof -
  obtain s1 where i: "initializeDatabase e s = (None, s1)" "initialised e s = s1"
    "tbl_notes s1 = tbl_notes s" by (rule initializeDatabase_notes)
  from assms i(3) have d1: "distinct (map n_id (tbl_notes s1))" by simp
  show ?thesis
  proof (cases b)
    case None
    with i show ?thesis by (simp add: put_notes_id_def)
  next
    case (Some body)
    show ?thesis
    proof (cases "int4_in pid")
      case None
      with Some i show ?thesis by (simp add: put_notes_id_def)
    next
      case (Some k)
      show ?thesis
      proof (cases "rows0 (filter (\<lambda>n. n_id n = k \<and> n_tenant_id n = tenantId c) (tbl_notes s1))")
        case None
        with Some \<open>b = Some body\<close> i show ?thesis by (simp add: put_notes_id_def)
      next
        case (Some found)
        from update_note_other_tenants [OF d1 Some]
        have "filter (\<lambda>n. n_tenant_id n \<noteq> tenantId c)
                (tbl_notes (snd (update_note (prepareValue (nb_title body))
                   (prepareValue (nb_content body)) k (clock e) s1))) =
              filter (\<lambda>n. n_tenant_id n \<noteq> tenantId c) (tbl_notes s)"
          by (simp add: i(3))
        with Some \<open>int4_in pid = Some k\<close> \<open>b = Some body\<close> i show ?thesis
          by (simp add: put_notes_id_def update_outcome_state)
      qed
    qed
  qed
qed

lemma delete_other_tenants:
  assumes "distinct (map n_id (tbl_notes s))"
  shows "filter (\<lambda>n. n_tenant_id n \<noteq> tenantId c) (tbl_notes (snd (delete_notes_id e pid c s))) =
         filter (\<lambda>n. n_tenant_id n \<noteq> tenantId c) (tbl_notes s)"
proof -
  obtain s1 where i: "initializeDatabase e s = (None, s1)" "initialised e s = s1"
    "tbl_notes s1 = tbl_notes s" by (rule initializeDatabase_notes)
  show ?thesis
  proof (cases "int4_in pid")
    case None
    with i show ?thesis by (simp add: delete_notes_id_def)
  next
    case (Some k)
    show ?thesis
    proof (cases "rows0 (filter (\<lambda>n. n_id n = k \<and> n_tenant_id n = tenantId c) (tbl_notes s))")
      case None
      with Some i show ?thesis by (simp add: delete_notes_id_def)
    next
      case (Some found)
      have "\<forall>x \<in> set (tbl_notes s). n_tenant_id x \<noteq> tenantId c \<longrightarrow> n_id x \<noteq> k"
        using found_rows_are_own [OF assms Some] by blast
      then have "filter (\<lambda>n. n_tenant_id n \<noteq> tenantId c) (filter (\<lambda>n. n_id n \<noteq> k) (tbl_notes s)) =
          filter (\<lambda>n. n_tenant_id n \<noteq> tenantId c) (tbl_notes s)"
        by (rule filter_filter_unchanged)
      then have "filter (\<lambda>n. n_tenant_id n \<noteq> tenantId c) (tbl_notes (delete_note k s1)) =
          filter (\<lambda>n. n_tenant_id n \<noteq> tenantId c) (tbl_notes s)"
        by (simp add: delete_note_def i(3))
      with Some \<open>int4_in pid = Some k\<close> i show ?thesis by (simp add: delete_notes_id_def)
    qed
  qed
qed

lemma insert_note_other_tenants:
  "filter (\<lambda>n. n_tenant_id n \<noteq> tid) (tbl_notes (snd (insert_note tid uid t ct now s))) =
   filter (\<lambda>n. n_tenant_id n \<noteq> tid) (tbl_notes s)"
proof (cases "text_ok t \<and> text_ok ct")
  case False
  then show ?thesis by (auto simp: insert_note_def)
next
  case True
  show ?thesis
  proof (cases t)
    case None
    with True show ?thesis by (simp add: insert_note_def Let_def)
  next
    case (Some x)
    show ?thesis
    proof (cases ct)
      case None
      with Some True show ?thesis by (simp add: insert_note_def Let_def)
    next
      case (Some y)
      with \<open>t = Some x\<close> True show ?thesis by (simp add: insert_note_def Let_def)
    qed
  qed
qed

lemma post_other_tenants:
  "filter (\<lambda>n. n_tenant_id n \<noteq> tenantId c) (tbl_notes (snd (post_notes e b c s))) =
   filter (\<lambda>n. n_tenant_id n \<noteq> tenantId c) (tbl_notes s)"
proof -
  obtain s1 where i: "initializeDatabase e s = (None, s1)" "initialised e s = s1"
    "tbl_notes s1 = tbl_notes s" by (rule initializeDatabase_notes)
  have "filter (\<lambda>n. n_tenant_id n \<noteq> tenantId c)
          (tbl_notes (snd (insert_note (tenantId c) (sub c) t ct now s1))) =
        filter (\<lambda>n. n_tenant_id n \<noteq> tenantId c) (tbl_notes s)" for t ct now
    using insert_note_other_tenants [of "tenantId c" "sub c" t ct now s1] by (simp add: i(3))
  then show ?thesis unfolding post_notes_def i(1)
    by (simp add: create_outcome_state i(3) split: option.splits)
qed

lemma get_other_tenants:
  "snd (get_notes_id e pid c s) = initialised e s \<and>
   (fst (get_notes_id e pid c s) = Response 200 (NoteBody j) \<longrightarrow>
      (\<exists>n \<in> set (tbl_notes s). n_tenant_id n = tenantId c \<and> j = returning n))"
proof -
  obtain s1 where i: "initializeDatabase e s = (None, s1)" "initialised e s = s1"
    "tbl_notes s1 = tbl_notes s" by (rule initializeDatabase_notes)
  show ?thesis
  proof (cases "int4_in pid")
    case None
    with i show ?thesis by (simp add: get_notes_id_def)
  next
    case (Some k)
    show ?thesis
    proof (cases "rows0 (filter (\<lambda>n. n_id n = k \<and> n_tenant_id n = tenantId c) (tbl_notes s))")
      case None
      with Some i show ?thesis by (simp add: get_notes_id_def)
    next
      case (Some found)
      from rows0_filter_Some [OF Some] have "found \<in> set (tbl_notes s)" "n_tenant_id found = tenantId c"
        by simp_all
      with Some \<open>int4_in pid = Some k\<close> i show ?thesis by (auto simp add: get_notes_id_def)
    qed
  qed
qed

lemma other_tenants_untouched:
  assumes "jwt_verify tok (JWT_SECRET e) (clock e) = Inr c"
    and "distinct (map n_id (tbl_notes s))"
  shows "filter (\<lambda>n. n_tenant_id n \<noteq> tenantId c)
           (tbl_notes (snd (route_update_note e (Some (Bearer tok)) pid b s))) =
         filter (\<lambda>n. n_tenant_id n \<noteq> tenantId c) (tbl_notes s)"
    and "filter (\<lambda>n. n_tenant_id n \<noteq> tenantId c)
           (tbl_notes (snd (route_delete_note e (Some (Bearer tok)) pid s))) =
         filter (\<lambda>n. n_tenant_id n \<noteq> tenantId c) (tbl_notes s)"
    and "filter (\<lambda>n. n_tenant_id n \<noteq> tenantId c)
           (tbl_notes (snd (route_create_note e (Some (Bearer tok)) b s))) =
         filter (\<lambda>n. n_tenant_id n \<noteq> tenantId c) (tbl_notes s)"
    and "tbl_notes (snd (route_get_note e (Some (Bearer tok)) pid s)) = tbl_notes s"
    and "fst (route_get_note e (Some (Bearer tok)) pid s) = Response 200 (NoteBody j) \<Longrightarrow>
         \<exists>n \<in> set (tbl_notes s). n_tenant_id n = tenantId c \<and> j = returning n"
  using get_other_tenants [of e pid c s j]
  by (simp_all add: route_update_note_def route_delete_note_def route_create_note_def
      route_get_note_def requireAuth_decoded [OF assms(1)] put_other_tenants [OF assms(2)]
      delete_other_tenants [OF assms(2)] post_other_tenants initialised_notes)

section \<open>Facts about the concrete deployment\<close>

lemma ex_verify: "jwt_verify (ex_token c) (JWT_SECRET ex_env) (clock ex_env) = Inr c"
  by (simp add: ex_token_def ex_env_def ex_issue_env_def signToken_def jwt_sign_def jwt_verify_def
      JWT_SECRET_def seconds_7d_def)

lemma ex_distinct: "distinct (map n_id (tbl_notes ex_state))"
  by (simp add: ex_state_def ex_note1_def ex_note2_def ex_note3_def)

lemma ex_init: "initialised ex_env ex_state = ex_state"
  by (simp add: initialised_def initializeDatabase_def ex_state_def)

lemma ex_int4: "int4 (n_id ex_note1)" "int4 (n_id ex_note2)" "int4 (n_id ex_note3)" "int4 99"
  by (simp_all add: int4_def ex_note1_def ex_note2_def ex_note3_def)

section \<open>Tenant isolation\<close>

text \<open>
  C1. Let \<open>c\<close> be the claim a presented token decodes to and \<open>n\<close> a stored note of
  another tenant (\<open>n_tenant_id n \<noteq> tenantId c\<close>). Then reading, updating and deleting
  \<open>n\<close> are each refused with an error response, and the notes table is left as it was:
  the note is not returned, modified or deleted. Nothing is assumed about the role of
  \<open>c\<close>. The primary key of \<open>notes\<close> is what the \<open>UPDATE\<close> and \<open>DELETE\<close>, which
  name the id alone, rely on. An update whose body cannot be read leaves the notes as they
  were, too.
\<close>

theorem tenant_isolation:
  assumes "jwt_verify tok (JWT_SECRET e) (clock e) = Inr c"
    and "distinct (map n_id (tbl_notes s))"
    and "n \<in> set (tbl_notes s)"
    and "n_tenant_id n \<noteq> tenantId c"
  shows "refused (fst (route_get_note e (Some (Bearer tok)) (Some (n_id n)) s)) \<and>
         tbl_notes (snd (route_get_note e (Some (Bearer tok)) (Some (n_id n)) s)) = tbl_notes s \<and>
         refused (fst (route_update_note e (Some (Bearer tok)) (Some (n_id n)) (Some b) s)) \<and>
         tbl_notes (snd (route_update_note e (Some (Bearer tok)) (Some (n_id n)) (Some b) s)) =
           tbl_notes s \<and>
         refused (fst (route_delete_note e (Some (Bearer tok)) (Some (n_id n)) s)) \<and>
         tbl_notes (snd (route_delete_note e (Some (Bearer tok)) (Some (n_id n)) s)) = tbl_notes s \<and>
         tbl_notes (snd (route_update_note e (Some (Bearer tok)) (Some (n_id n)) None s)) =
           tbl_notes s"
  by (simp add: route_get_note_def route_update_note_def route_delete_note_def
      requireAuth_decoded [OF assms(1)] get_foreign [OF assms(2-4)] put_foreign [OF assms(2-4)]
      delete_foreign [OF assms(2-4)] put_null_body initialised_notes)

theorem tenant_isolation_witness:
  "jwt_verify (ex_token acme_member) (JWT_SECRET ex_env) (clock ex_env) = Inr acme_member \<and>
   distinct (map n_id (tbl_notes ex_state)) \<and>
   ex_note2 \<in> set (tbl_notes ex_state) \<and>
   n_tenant_id ex_note2 \<noteq> tenantId acme_member \<and>
   refused (fst (route_get_note ex_env (Some (Bearer (ex_token acme_member))) (Some (n_id ex_note2)) ex_state)) \<and>
   tbl_notes (snd (route_delete_note ex_env (Some (Bearer (ex_token acme_member))) (Some (n_id ex_note2)) ex_state)) = tbl_notes ex_state"
proof -
  have h3: "ex_note2 \<in> set (tbl_notes ex_state)" by (simp add: ex_state_def)
  have h4: "n_tenant_id ex_note2 \<noteq> tenantId acme_member"
    by (simp add: ex_note2_def acme_member_def)
  from tenant_isolation [OF ex_verify ex_distinct h3 h4] ex_verify ex_distinct h3 h4
  show ?thesis by simp
qed

section \<open>Quota gating\<close>

text \<open>
  C2. Take a creation request whose title and content are truthy and are accepted by the
  server as text (no byte zero), from a claim whose tenant and user are stored. Under a
  tenant whose stored plan is free it answers 201 exactly when the tenant has fewer than
  three notes, and otherwise answers 402 with the reason \<open>note_limit_reached\<close> and stores
  nothing; under a pro tenant it answers 201 whatever the count. A 201 appends one note,
  owned by the caller and the caller's tenant, with the texts bound for title and content.
\<close>

theorem quota_gating:
  assumes "jwt_verify tok (JWT_SECRET e) (clock e) = Inr c"
    and "\<not> falsy (nb_title b)" "\<not> falsy (nb_content b)"
    and "bindable (nb_title b)" "bindable (nb_content b)"
    and "rows0 (filter (\<lambda>t. t_id t = tenantId c) (tbl_tenants s)) = Some t"
    and "\<exists>u \<in> set (tbl_users s). u_id u = sub c"
  shows "(t_plan t = Free \<longrightarrow>
            (status (fst (route_create_note e (Some (Bearer tok)) (Some b) s)) = Some 201
               \<longleftrightarrow> note_count (tenantId c) s < 3) \<and>
            (\<not> note_count (tenantId c) s < 3 \<longrightarrow>
               route_create_note e (Some (Bearer tok)) (Some b) s =
                 (Response 402
                    (QuotaBody ''note_limit_reached''
                       ''Free plan is limited to 3 notes. Upgrade to Pro for unlimited notes.''),
                  initialised e s))) \<and>
         (t_plan t = Pro \<longrightarrow>
            status (fst (route_create_note e (Some (Bearer tok)) (Some b) s)) = Some 201) \<and>
         (status (fst (route_create_note e (Some (Bearer tok)) (Some b) s)) = Some 201 \<longrightarrow>
            (\<exists>title content.
               prepareValue (nb_title b) = Some title \<and>
               prepareValue (nb_content b) = Some content \<and>
               tbl_notes (snd (route_create_note e (Some (Bearer tok)) (Some b) s)) =
                 tbl_notes s @
                   [\<lparr>n_id = notes_seq s, n_tenant_id = tenantId c, n_user_id = sub c,
                     n_title = title, n_content = content,
                     n_created_at = clock e, n_updated_at = clock e\<rparr>]))"
proof -
  from truthy_prepareValue [OF assms(2)] obtain title where ti: "prepareValue (nb_title b) = Some title"
    by blast
  from truthy_prepareValue [OF assms(3)] obtain content where
    co: "prepareValue (nb_content b) = Some content" by blast
  have r: "route_create_note e (Some (Bearer tok)) (Some b) s = post_notes e (Some b) c s"
    by (simp add: route_create_note_def requireAuth_decoded [OF assms(1)])
  note res = post_notes_result [OF assms(2-5) ti co assms(6,7), of e]
  show ?thesis
  proof (cases "t_plan t = Free \<and> 3 \<le> note_count (tenantId c) s")
    case True
    then have "route_create_note e (Some (Bearer tok)) (Some b) s =
        (Response 402
           (QuotaBody ''note_limit_reached''
              ''Free plan is limited to 3 notes. Upgrade to Pro for unlimited notes.''),
         initialised e s)"
      unfolding r res by simp
    with True show ?thesis by simp
  next
    case False
    then have out: "route_create_note e (Some (Bearer tok)) (Some b) s =
        (Response 201
           (NoteBody (returning
              \<lparr>n_id = notes_seq s, n_tenant_id = tenantId c, n_user_id = sub c,
                n_title = title, n_content = content,
                n_created_at = clock e, n_updated_at = clock e\<rparr>)),
         (initialised e s)
           \<lparr>notes_seq := notes_seq s + 1,
             tbl_notes := tbl_notes s @
               [\<lparr>n_id = notes_seq s, n_tenant_id = tenantId c, n_user_id = sub c,
                 n_title = title, n_content = content,
                 n_created_at = clock e, n_updated_at = clock e\<rparr>]\<rparr>)"
      unfolding r res by simp
    have st: "status (fst (route_create_note e (Some (Bearer tok)) (Some b) s)) = Some 201"
      and nt: "tbl_notes (snd (route_create_note e (Some (Bearer tok)) (Some b) s)) =
        tbl_notes s @
               [\<lparr>n_id = notes_seq s, n_tenant_id = tenantId c, n_user_id = sub c,
                 n_title = title, n_content = content,
                 n_created_at = clock e, n_updated_at = clock e\<rparr>]"
      unfolding out by simp_all
    from False have "t_plan t = Free \<longrightarrow> note_count (tenantId c) s < 3" by auto
    with st nt ti co show ?thesis by blast
  qed
qed

theorem quota_gating_witness:
  "jwt_verify (ex_token acme_member) (JWT_SECRET ex_env) (clock ex_env) = Inr acme_member \<and>
   \<not> falsy (nb_title \<lparr>nb_title = JStr ''t'', nb_content = JStr ''c''\<rparr>) \<and>
   \<not> falsy (nb_content \<lparr>nb_title = JStr ''t'', nb_content = JStr ''c''\<rparr>) \<and>
   bindable (nb_title \<lparr>nb_title = JStr ''t'', nb_content = JStr ''c''\<rparr>) \<and>
   bindable (nb_content \<lparr>nb_title = JStr ''t'', nb_content = JStr ''c''\<rparr>) \<and>
   rows0 (filter (\<lambda>t. t_id t = tenantId acme_member) (tbl_tenants ex_state)) = Some ex_acme \<and>
   rows0 (filter (\<lambda>t. t_id t = tenantId acme_member) (tbl_tenants ex_state_full)) = Some ex_acme \<and>
   rows0 (filter (\<lambda>t. t_id t = tenantId acme_member) (tbl_tenants (upgrade_tenant 1 ex_state_full))) =
     Some (ex_acme\<lparr>t_plan := Pro\<rparr>) \<and>
   (\<exists>u \<in> set (tbl_users ex_state). u_id u = sub acme_member) \<and>
   t_plan ex_acme = Free \<and> note_count (tenantId acme_member) ex_state < 3 \<and>
   \<not> note_count (tenantId acme_member) ex_state_full < 3 \<and>
   status (fst (route_create_note ex_env (Some (Bearer (ex_token acme_member)))
                  (Some \<lparr>nb_title = JStr ''t'', nb_content = JStr ''c''\<rparr>) ex_state)) = Some 201 \<and>
   status (fst (route_create_note ex_env (Some (Bearer (ex_token acme_member)))
                  (Some \<lparr>nb_title = JStr ''t'', nb_content = JStr ''c''\<rparr>) ex_state_full)) = Some 402 \<and>
   status (fst (route_create_note ex_env (Some (Bearer (ex_token acme_member)))
                  (Some \<lparr>nb_title = JStr ''t'', nb_content = JStr ''c''\<rparr>)
                  (upgrade_tenant 1 ex_state_full))) = Some 201"
proof -
  let ?b = "\<lparr>nb_title = JStr ''t'', nb_content = JStr ''c''\<rparr>"
  have b1: "\<not> falsy (nb_title ?b)" and b2: "\<not> falsy (nb_content ?b)"
    by simp_all
  have b3: "bindable (nb_title ?b)" and b4: "bindable (nb_content ?b)"
    by (simp_all add: bindable_def text_ok_def)
  have t1: "rows0 (filter (\<lambda>t. t_id t = tenantId acme_member) (tbl_tenants ex_state)) = Some ex_acme"
    by (simp add: ex_state_def ex_acme_def ex_globex_def acme_member_def rows0_def)
  have t2: "rows0 (filter (\<lambda>t. t_id t = tenantId acme_member) (tbl_tenants ex_state_full)) = Some ex_acme"
    by (simp add: ex_state_full_def t1)
  have t3: "rows0 (filter (\<lambda>t. t_id t = tenantId acme_member) (tbl_tenants (upgrade_tenant 1 ex_state_full))) =
     Some (ex_acme\<lparr>t_plan := Pro\<rparr>)"
    by (simp add: upgrade_tenant_def ex_state_full_def ex_state_def ex_acme_def ex_globex_def
        acme_member_def rows0_def)
  have u1: "\<exists>u \<in> set (tbl_users ex_state). u_id u = sub acme_member"
    by (simp add: ex_state_def ex_user_def acme_member_def)
  have u2: "\<exists>u \<in> set (tbl_users ex_state_full). u_id u = sub acme_member"
    using u1 by (simp add: ex_state_full_def)
  have u3: "\<exists>u \<in> set (tbl_users (upgrade_tenant 1 ex_state_full)). u_id u = sub acme_member"
    using u2 by (simp add: upgrade_tenant_def)
  have p1: "t_plan ex_acme = Free" and p3: "t_plan (ex_acme\<lparr>t_plan := Pro\<rparr>) = Pro"
    by (simp_all add: ex_acme_def)
  have c1: "note_count (tenantId acme_member) ex_state < 3"
    by (simp add: note_count_def ex_state_def ex_note1_def ex_note2_def ex_note3_def acme_member_def)
  have c2: "\<not> note_count (tenantId acme_member) ex_state_full < 3"
    by (simp add: note_count_def ex_state_full_def ex_note1_def ex_note2_def ex_note3_def
        ex_note4_def acme_member_def)
  from quota_gating [OF ex_verify b1 b2 b3 b4 t1 u1] p1 c1
  have r1: "status (fst (route_create_note ex_env (Some (Bearer (ex_token acme_member))) (Some ?b) ex_state)) =
     Some 201" by blast
  from quota_gating [OF ex_verify b1 b2 b3 b4 t2 u2] p1 c2
  have "route_create_note ex_env (Some (Bearer (ex_token acme_member))) (Some ?b) ex_state_full =
      (Response 402
         (QuotaBody ''note_limit_reached''
            ''Free plan is limited to 3 notes. Upgrade to Pro for unlimited notes.''),
       initialised ex_env ex_state_full)" by blast
  then have r2: "status (fst (route_create_note ex_env (Some (Bearer (ex_token acme_member))) (Some ?b)
      ex_state_full)) = Some 402" by simp
  from quota_gating [OF ex_verify b1 b2 b3 b4 t3 u3] p3
  have r3: "status (fst (route_create_note ex_env (Some (Bearer (ex_token acme_member))) (Some ?b)
      (upgrade_tenant 1 ex_state_full))) = Some 201" by blast
  from ex_verify b1 b2 b3 b4 t1 t2 t3 u1 p1 c1 c2 r1 r2 r3 show ?thesis by blast
qed

section \<open>Ownership gating\<close>

text \<open>
  C3. For a stored note \<open>n\<close> of the caller's tenant that the caller did not create: a
  member is answered 403 on update and on delete and the notes stay as they were; an
  admin's delete removes \<open>n\<close>, and an admin's update whose title and content the server
  accepts as text is applied to \<open>n\<close> and answered with the updated row.
\<close>

theorem ownership_gating:
  assumes "jwt_verify tok (JWT_SECRET e) (clock e) = Inr c"
    and "distinct (map n_id (tbl_notes s))"
    and "n \<in> set (tbl_notes s)"
    and "int4 (n_id n)"
    and "n_tenant_id n = tenantId c"
    and "n_user_id n \<noteq> sub c"
  shows "(role c = Member \<longrightarrow>
            route_update_note e (Some (Bearer tok)) (Some (n_id n)) (Some b) s =
              (Response 403 (ErrorBody ''Forbidden: You can only edit your own notes''),
               initialised e s) \<and>
            route_delete_note e (Some (Bearer tok)) (Some (n_id n)) s =
              (Response 403 (ErrorBody ''Forbidden: You can only delete your own notes''),
               initialised e s) \<and>
            tbl_notes (initialised e s) = tbl_notes s) \<and>
         (role c = Admin \<longrightarrow>
            fst (route_delete_note e (Some (Bearer tok)) (Some (n_id n)) s) =
              Response 200 SuccessBody \<and>
            tbl_notes (snd (route_delete_note e (Some (Bearer tok)) (Some (n_id n)) s)) =
              filter (\<lambda>x. x \<noteq> n) (tbl_notes s)) \<and>
         (role c = Admin \<and> bindable (nb_title b) \<and> bindable (nb_content b) \<longrightarrow>
            fst (route_update_note e (Some (Bearer tok)) (Some (n_id n)) (Some b) s) =
              Response 200
                (NoteBody (returning (set_clause (prepareValue (nb_title b))
                   (prepareValue (nb_content b)) (clock e) n))) \<and>
            tbl_notes (snd (route_update_note e (Some (Bearer tok)) (Some (n_id n)) (Some b) s)) =
              map (\<lambda>x. if x = n
                        then set_clause (prepareValue (nb_title b))
                               (prepareValue (nb_content b)) (clock e) n
                        else x)
                (tbl_notes s))"
proof (intro conjI impI)
  assume m: "role c = Member"
  show "route_update_note e (Some (Bearer tok)) (Some (n_id n)) (Some b) s =
          (Response 403 (ErrorBody ''Forbidden: You can only edit your own notes''), initialised e s)"
    by (simp add: route_update_note_def requireAuth_decoded [OF assms(1)]
        put_denied [OF assms(2,3,5) m assms(6,4)])
  show "route_delete_note e (Some (Bearer tok)) (Some (n_id n)) s =
          (Response 403 (ErrorBody ''Forbidden: You can only delete your own notes''), initialised e s)"
    by (simp add: route_delete_note_def requireAuth_decoded [OF assms(1)]
        delete_denied [OF assms(2,3,5) m assms(6,4)])
  show "tbl_notes (initialised e s) = tbl_notes s" by (rule initialised_notes)
next
  assume a: "role c = Admin"
  then have ok: "\<not> (role c = Member \<and> n_user_id n \<noteq> sub c)" by simp
  show "fst (route_delete_note e (Some (Bearer tok)) (Some (n_id n)) s) = Response 200 SuccessBody"
    by (simp add: route_delete_note_def requireAuth_decoded [OF assms(1)]
        delete_allowed [OF assms(2,3,5) ok assms(4)])
  show "tbl_notes (snd (route_delete_note e (Some (Bearer tok)) (Some (n_id n)) s)) =
          filter (\<lambda>x. x \<noteq> n) (tbl_notes s)"
    by (simp add: route_delete_note_def requireAuth_decoded [OF assms(1)]
        delete_allowed [OF assms(2,3,5) ok assms(4)] delete_note_notes [OF assms(2,3)])
next
  assume a: "role c = Admin \<and> bindable (nb_title b) \<and> bindable (nb_content b)"
  then have ok: "\<not> (role c = Member \<and> n_user_id n \<noteq> sub c)"
    and bt: "bindable (nb_title b)" and bc: "bindable (nb_content b)" by simp_all
  note put = put_allowed [OF assms(2,3,5) ok assms(4) bt bc, of e]
  show "fst (route_update_note e (Some (Bearer tok)) (Some (n_id n)) (Some b) s) =
          Response 200 (NoteBody (returning (set_clause (prepareValue (nb_title b))
             (prepareValue (nb_content b)) (clock e) n)))"
    by (simp add: route_update_note_def requireAuth_decoded [OF assms(1)] put)
  show "tbl_notes (snd (route_update_note e (Some (Bearer tok)) (Some (n_id n)) (Some b) s)) =
          map (\<lambda>x. if x = n
                    then set_clause (prepareValue (nb_title b))
                           (prepareValue (nb_content b)) (clock e) n
                    else x)
            (tbl_notes s)"
    by (simp add: route_update_note_def requireAuth_decoded [OF assms(1)] put)
qed

theorem ownership_gating_witness:
  "jwt_verify (ex_token acme_member) (JWT_SECRET ex_env) (clock ex_env) = Inr acme_member \<and>
   jwt_verify (ex_token acme_admin) (JWT_SECRET ex_env) (clock ex_env) = Inr acme_admin \<and>
   distinct (map n_id (tbl_notes ex_state)) \<and>
   ex_note1 \<in> set (tbl_notes ex_state) \<and> ex_note3 \<in> set (tbl_notes ex_state) \<and>
   int4 (n_id ex_note1) \<and> int4 (n_id ex_note3) \<and>
   n_tenant_id ex_note1 = tenantId acme_member \<and> n_user_id ex_note1 \<noteq> sub acme_member \<and>
   n_tenant_id ex_note3 = tenantId acme_admin \<and> n_user_id ex_note3 \<noteq> sub acme_admin \<and>
   role acme_member = Member \<and> role acme_admin = Admin \<and>
   bindable (nb_title \<lparr>nb_title = JStr ''new'', nb_content = JUndefined\<rparr>) \<and>
   bindable (nb_content \<lparr>nb_title = JStr ''new'', nb_content = JUndefined\<rparr>) \<and>
   fst (route_delete_note ex_env (Some (Bearer (ex_token acme_member))) (Some (n_id ex_note1)) ex_state) =
     Response 403 (ErrorBody ''Forbidden: You can only delete your own notes'') \<and>
   fst (route_delete_note ex_env (Some (Bearer (ex_token acme_admin))) (Some (n_id ex_note3)) ex_state) =
     Response 200 SuccessBody \<and>
   status (fst (route_update_note ex_env (Some (Bearer (ex_token acme_admin))) (Some (n_id ex_note3))
                  (Some \<lparr>nb_title = JStr ''new'', nb_content = JUndefined\<rparr>) ex_state)) = Some 200"
proof -
  let ?b = "\<lparr>nb_title = JStr ''new'', nb_content = JUndefined\<rparr>"
  have m1: "ex_note1 \<in> set (tbl_notes ex_state)" and m3: "ex_note3 \<in> set (tbl_notes ex_state)"
    by (simp_all add: ex_state_def)
  have t1: "n_tenant_id ex_note1 = tenantId acme_member"
    and o1: "n_user_id ex_note1 \<noteq> sub acme_member"
    and r1: "role acme_member = Member"
    by (simp_all add: ex_note1_def acme_member_def)
  have t3: "n_tenant_id ex_note3 = tenantId acme_admin"
    and o3: "n_user_id ex_note3 \<noteq> sub acme_admin"
    and r3: "role acme_admin = Admin"
    by (simp_all add: ex_note3_def acme_admin_def)
  have bt: "bindable (nb_title ?b)" and bc: "bindable (nb_content ?b)"
    by (simp_all add: bindable_def text_ok_def)
  from ownership_gating [OF ex_verify ex_distinct m1 ex_int4(1) t1 o1] r1
  have a: "fst (route_delete_note ex_env (Some (Bearer (ex_token acme_member))) (Some (n_id ex_note1)) ex_state) =
     Response 403 (ErrorBody ''Forbidden: You can only delete your own notes'')" by simp
  from ownership_gating [OF ex_verify ex_distinct m3 ex_int4(3) t3 o3, of ?b] r3 bt bc
  have b: "fst (route_delete_note ex_env (Some (Bearer (ex_token acme_admin))) (Some (n_id ex_note3)) ex_state) =
     Response 200 SuccessBody"
    and u: "status (fst (route_update_note ex_env (Some (Bearer (ex_token acme_admin)))
      (Some (n_id ex_note3)) (Some ?b) ex_state)) = Some 200" by simp_all
  from a b u ex_verify ex_distinct m1 m3 ex_int4(1,3) t1 o1 r1 t3 o3 r3 bt bc show ?thesis by simp
qed

section \<open>Leak avoidance\<close>

text \<open>
  C4. A request with a valid claim of one tenant against a stored note of another tenant
  is answered 404 \<open>Note not found\<close> by the read, update and delete routes, and the
  outcome (response and state) is the very one of a request for an id within \<open>int4\<close>
  that no note has. The update carries a body that can be read.
\<close>

theorem leak_avoidance:
  assumes "jwt_verify tok (JWT_SECRET e) (clock e) = Inr c"
    and "distinct (map n_id (tbl_notes s))"
    and "n \<in> set (tbl_notes s)"
    and "int4 (n_id n)"
    and "n_tenant_id n \<noteq> tenantId c"
    and "m \<notin> n_id ` set (tbl_notes s)"
    and "int4 m"
  shows "fst (route_get_note e (Some (Bearer tok)) (Some (n_id n)) s) =
           Response 404 (ErrorBody ''Note not found'') \<and>
         route_get_note e (Some (Bearer tok)) (Some (n_id n)) s =
           route_get_note e (Some (Bearer tok)) (Some m) s \<and>
         fst (route_update_note e (Some (Bearer tok)) (Some (n_id n)) (Some b) s) =
           Response 404 (ErrorBody ''Note not found'') \<and>
         route_update_note e (Some (Bearer tok)) (Some (n_id n)) (Some b) s =
           route_update_note e (Some (Bearer tok)) (Some m) (Some b) s \<and>
         fst (route_delete_note e (Some (Bearer tok)) (Some (n_id n)) s) =
           Response 404 (ErrorBody ''Note not found'') \<and>
         route_delete_note e (Some (Bearer tok)) (Some (n_id n)) s =
           route_delete_note e (Some (Bearer tok)) (Some m) s"
  using assms(4)
  by (simp add: route_get_note_def route_update_note_def route_delete_note_def
      requireAuth_decoded [OF assms(1)] get_foreign [OF assms(2,3,5)] put_foreign [OF assms(2,3,5)]
      delete_foreign [OF assms(2,3,5)] get_absent [OF assms(6,7)] put_absent [OF assms(6,7)]
      delete_absent [OF assms(6,7)])

theorem leak_avoidance_witness:
  "jwt_verify (ex_token acme_member) (JWT_SECRET ex_env) (clock ex_env) = Inr acme_member \<and>
   distinct (map n_id (tbl_notes ex_state)) \<and>
   ex_note2 \<in> set (tbl_notes ex_state) \<and>
   int4 (n_id ex_note2) \<and>
   n_tenant_id ex_note2 \<noteq> tenantId acme_member \<and>
   99 \<notin> n_id ` set (tbl_notes ex_state) \<and>
   int4 99 \<and>
   fst (route_get_note ex_env (Some (Bearer (ex_token acme_member))) (Some (n_id ex_note2)) ex_state) =
     Response 404 (ErrorBody ''Note not found'') \<and>
   route_delete_note ex_env (Some (Bearer (ex_token acme_member))) (Some (n_id ex_note2)) ex_state =
     route_delete_note ex_env (Some (Bearer (ex_token acme_member))) (Some 99) ex_state"
proof -
  have h3: "ex_note2 \<in> set (tbl_notes ex_state)" by (simp add: ex_state_def)
  have h4: "n_tenant_id ex_note2 \<noteq> tenantId acme_member"
    by (simp add: ex_note2_def acme_member_def)
  have h5: "99 \<notin> n_id ` set (tbl_notes ex_state)"
    by (simp add: ex_state_def ex_note1_def ex_note2_def ex_note3_def)
  from leak_avoidance [OF ex_verify ex_distinct h3 ex_int4(2) h4 h5 ex_int4(4)]
    ex_verify ex_distinct h3 h4 h5 ex_int4(2,4)
  show ?thesis by blast
qed

section \<open>Role gating\<close>

text \<open>
  C5. With a claim whose role is not admin, the upgrade and invite routes answer 403
  \<open>Forbidden\<close> and return the state untouched: the handler, and with it every
  statement, is never reached. With an admin claim and the claim's own slug, the upgrade
  answers 200 and every tenant row with the claim's tenant id has plan pro afterwards.
\<close>

theorem role_gating:
  assumes "jwt_verify tok (JWT_SECRET e) (clock e) = Inr c"
  shows "(role c \<noteq> Admin \<longrightarrow>
            route_upgrade e (Some (Bearer tok)) slug s = (Response 403 (ErrorBody ''Forbidden''), s) \<and>
            route_invite e (Some (Bearer tok)) slug b s = (Response 403 (ErrorBody ''Forbidden''), s)) \<and>
         (role c = Admin \<and> slug = tenantSlug c \<longrightarrow>
            fst (route_upgrade e (Some (Bearer tok)) slug s) = Response 200 (UpgradeBody ''pro'') \<and>
            (\<forall>t \<in> set (tbl_tenants (snd (route_upgrade e (Some (Bearer tok)) slug s))).
               t_id t = tenantId c \<longrightarrow> t_plan t = Pro) \<and>
            (\<forall>t \<in> set (tbl_tenants s).
               t_id t = tenantId c \<longrightarrow>
               t\<lparr>t_plan := Pro\<rparr> \<in> set (tbl_tenants (snd (route_upgrade e (Some (Bearer tok)) slug s)))))"
proof (intro conjI impI)
  assume "role c \<noteq> Admin"
  then show "route_upgrade e (Some (Bearer tok)) slug s = (Response 403 (ErrorBody ''Forbidden''), s)"
    and "route_invite e (Some (Bearer tok)) slug b s = (Response 403 (ErrorBody ''Forbidden''), s)"
    by (simp_all add: route_upgrade_def route_invite_def requireAuth_decoded [OF assms])
next
  assume a: "role c = Admin \<and> slug = tenantSlug c"
  then have r: "route_upgrade e (Some (Bearer tok)) slug s =
      (Response 200 (UpgradeBody ''pro''), upgrade_tenant (tenantId c) (initialised e s))"
    by (simp add: route_upgrade_def requireAuth_decoded [OF assms] post_tenants_upgrade_own)
  show "fst (route_upgrade e (Some (Bearer tok)) slug s) = Response 200 (UpgradeBody ''pro'')"
    by (simp add: r)
  show "\<forall>t \<in> set (tbl_tenants (snd (route_upgrade e (Some (Bearer tok)) slug s))).
          t_id t = tenantId c \<longrightarrow> t_plan t = Pro"
    using upgrade_tenant_sets_pro [of _ "tenantId c" "initialised e s"] by (simp add: r)
  show "\<forall>t \<in> set (tbl_tenants s). t_id t = tenantId c \<longrightarrow>
          t\<lparr>t_plan := Pro\<rparr> \<in> set (tbl_tenants (snd (route_upgrade e (Some (Bearer tok)) slug s)))"
    using upgrade_tenant_keeps [of _ s "tenantId c" e] by (simp add: r)
qed

theorem role_gating_witness:
  "jwt_verify (ex_token acme_member) (JWT_SECRET ex_env) (clock ex_env) = Inr acme_member \<and>
   jwt_verify (ex_token acme_admin) (JWT_SECRET ex_env) (clock ex_env) = Inr acme_admin \<and>
   role acme_member \<noteq> Admin \<and> role acme_admin = Admin \<and> ''acme'' = tenantSlug acme_admin \<and>
   ex_acme \<in> set (tbl_tenants ex_state) \<and> t_id ex_acme = tenantId acme_admin \<and>
   route_upgrade ex_env (Some (Bearer (ex_token acme_member))) ''acme'' ex_state =
     (Response 403 (ErrorBody ''Forbidden''), ex_state) \<and>
   fst (route_upgrade ex_env (Some (Bearer (ex_token acme_admin))) ''acme'' ex_state) =
     Response 200 (UpgradeBody ''pro'') \<and>
   ex_acme\<lparr>t_plan := Pro\<rparr> \<in>
     set (tbl_tenants (snd (route_upgrade ex_env (Some (Bearer (ex_token acme_admin))) ''acme'' ex_state)))"
proof -
  have r1: "role acme_member \<noteq> Admin" by (simp add: acme_member_def)
  have r2: "role acme_admin = Admin" and sl: "''acme'' = tenantSlug acme_admin"
    and ti: "t_id ex_acme = tenantId acme_admin"
    by (simp_all add: acme_admin_def ex_acme_def)
  have m: "ex_acme \<in> set (tbl_tenants ex_state)" by (simp add: ex_state_def)
  from role_gating [OF ex_verify, of acme_member "''acme''" ex_state] r1
  have a: "route_upgrade ex_env (Some (Bearer (ex_token acme_member))) ''acme'' ex_state =
     (Response 403 (ErrorBody ''Forbidden''), ex_state)" by blast
  from role_gating [OF ex_verify, of acme_admin "''acme''" ex_state] r2 sl
  have b: "fst (route_upgrade ex_env (Some (Bearer (ex_token acme_admin))) ''acme'' ex_state) =
     Response 200 (UpgradeBody ''pro'')"
    and c: "\<forall>t \<in> set (tbl_tenants ex_state).
               t_id t = tenantId acme_admin \<longrightarrow>
               t\<lparr>t_plan := Pro\<rparr> \<in> set (tbl_tenants (snd (route_upgrade ex_env (Some (Bearer (ex_token acme_admin))) ''acme'' ex_state)))"
    by blast+
  from c m ti have d: "ex_acme\<lparr>t_plan := Pro\<rparr> \<in>
     set (tbl_tenants (snd (route_upgrade ex_env (Some (Bearer (ex_token acme_admin))) ''acme'' ex_state)))"
    by blast
  from ex_verify r1 r2 sl m ti a b d show ?thesis by blast
qed

section \<open>Order of the role gate and the tenant check\<close>

text \<open>
  C6, as the code has it. A request to upgrade or invite under a slug that is not the
  claim's own is answered 403 whatever the role, and neither the upgrade nor the invite is
  carried out. The role gate of the middleware comes first: a claim that is not admin gets
  the role denial \<open>Forbidden\<close>, the same outcome as under its own slug, and only an
  admin claim reaches the slug comparison and gets the cross-tenant denial.
\<close>

theorem role_gate_before_tenant_check:
  assumes "jwt_verify tok (JWT_SECRET e) (clock e) = Inr c"
    and "slug \<noteq> tenantSlug c"
  shows "route_upgrade e (Some (Bearer tok)) slug s =
           (if role c = Admin
            then (Response 403 (ErrorBody ''Forbidden: Cannot upgrade other tenants''), initialised e s)
            else (Response 403 (ErrorBody ''Forbidden''), s)) \<and>
         route_invite e (Some (Bearer tok)) slug b s =
           (if role c = Admin
            then (Response 403 (ErrorBody ''Forbidden: Cannot invite to other tenants''), initialised e s)
            else (Response 403 (ErrorBody ''Forbidden''), s)) \<and>
         (role c \<noteq> Admin \<longrightarrow>
            route_upgrade e (Some (Bearer tok)) slug s =
              route_upgrade e (Some (Bearer tok)) (tenantSlug c) s \<and>
            route_invite e (Some (Bearer tok)) slug b s =
              route_invite e (Some (Bearer tok)) (tenantSlug c) b s)"
  by (simp add: route_upgrade_def route_invite_def requireAuth_decoded [OF assms(1)]
      post_tenants_upgrade_other [OF assms(2)] post_tenants_invite_other [OF assms(2)])

theorem role_gate_before_tenant_check_witness:
  "jwt_verify (ex_token acme_admin) (JWT_SECRET ex_env) (clock ex_env) = Inr acme_admin \<and>
   ''globex'' \<noteq> tenantSlug acme_admin \<and>
   route_upgrade ex_env (Some (Bearer (ex_token acme_admin))) ''globex'' ex_state =
     (Response 403 (ErrorBody ''Forbidden: Cannot upgrade other tenants''), ex_state) \<and>
   route_invite ex_env (Some (Bearer (ex_token acme_admin))) ''globex''
       (Some \<lparr>ib_email = JStr ''x@globex.test'', ib_role = JStr ''admin''\<rparr>) ex_state =
     (Response 403 (ErrorBody ''Forbidden: Cannot invite to other tenants''), ex_state)"
proof -
  have sl: "''globex'' \<noteq> tenantSlug acme_admin" and r: "role acme_admin = Admin"
    by (simp_all add: acme_admin_def)
  from role_gate_before_tenant_check [OF ex_verify sl, of ex_state
      "Some \<lparr>ib_email = JStr ''x@globex.test'', ib_role = JStr ''admin''\<rparr>"] r ex_verify sl
  show ?thesis by (simp add: ex_init)
qed

text \<open>
  C6, as stated, fails: the member of Acme who asks to upgrade \<open>globex\<close> is not
  answered with the cross-tenant denial but with the role denial, exactly as when asking
  to upgrade \<open>acme\<close>.
\<close>

theorem tenant_check_first_counterexample:
  "jwt_verify (ex_token acme_member) (JWT_SECRET ex_env) (clock ex_env) = Inr acme_member \<and>
   ''globex'' \<noteq> tenantSlug acme_member \<and>
   fst (route_upgrade ex_env (Some (Bearer (ex_token acme_member))) ''globex'' ex_state) \<noteq>
     Response 403 (ErrorBody ''Forbidden: Cannot upgrade other tenants'') \<and>
   fst (route_upgrade ex_env (Some (Bearer (ex_token acme_member))) ''globex'' ex_state) =
     Response 403 (ErrorBody ''Forbidden'') \<and>
   route_upgrade ex_env (Some (Bearer (ex_token acme_member))) ''globex'' ex_state =
     route_upgrade ex_env (Some (Bearer (ex_token acme_member))) ''acme'' ex_state"
  by (simp add: ex_token_def ex_env_def ex_issue_env_def signToken_def jwt_sign_def jwt_verify_def
      JWT_SECRET_def seconds_7d_def acme_member_def route_upgrade_def requireAuth_def)

section \<open>Token round trip\<close>

text \<open>
  C7. A token issued for a claim verifies to the same claim (all six fields) as long as
  less than seven days have passed since it was issued under the same secret, and the
  middleware then hands that claim to the handler. A token signed with the secret whose
  embedded expiry lies in the past fails with \<open>Expired\<close>, and the middleware answers
  401 without running the handler.
\<close>

theorem token_round_trip:
  assumes "env_JWT_SECRET e' = env_JWT_SECRET e"
  shows "(clock e' < clock e + seconds_7d \<longrightarrow>
            jwt_verify (signToken e c) (JWT_SECRET e') (clock e') = Inr c \<and>
            requireAuth None e' (Some (Bearer (signToken e c))) next s = next c s) \<and>
         (ex < clock e' \<longrightarrow>
            jwt_verify (Jwt (JWT_SECRET e') c iat ex) (JWT_SECRET e') (clock e') = Inl Expired \<and>
            requireAuth rr e' (Some (Bearer (Jwt (JWT_SECRET e') c iat ex))) next s =
              (Response 401 (ErrorBody ''Invalid token''), s))"
proof -
  from assms have k: "JWT_SECRET e' = JWT_SECRET e"
    by (simp add: JWT_SECRET_def)
  show ?thesis
    by (simp add: k signToken_def jwt_sign_def jwt_verify_def requireAuth_def)
qed

theorem token_round_trip_witness:
  "env_JWT_SECRET \<lparr>env_JWT_SECRET = Some ''k'', clock = 2000, salt = ''s''\<rparr> =
     env_JWT_SECRET \<lparr>env_JWT_SECRET = Some ''k'', clock = 1000, salt = ''s''\<rparr> \<and>
   clock \<lparr>env_JWT_SECRET = Some ''k'', clock = 2000, salt = ''s''\<rparr> <
     clock \<lparr>env_JWT_SECRET = Some ''k'', clock = 1000, salt = ''s''\<rparr> + seconds_7d \<and>
   (1500::nat) < clock \<lparr>env_JWT_SECRET = Some ''k'', clock = 2000, salt = ''s''\<rparr> \<and>
   jwt_verify
     (signToken \<lparr>env_JWT_SECRET = Some ''k'', clock = 1000, salt = ''s''\<rparr>
        \<lparr>sub = 7, email = ''a@b'', role = Member, tenantId = 1, tenantSlug = ''acme'', plan = Free\<rparr>)
     (JWT_SECRET \<lparr>env_JWT_SECRET = Some ''k'', clock = 2000, salt = ''s''\<rparr>) 2000 =
     Inr \<lparr>sub = 7, email = ''a@b'', role = Member, tenantId = 1, tenantSlug = ''acme'', plan = Free\<rparr> \<and>
   jwt_verify
     (Jwt (JWT_SECRET \<lparr>env_JWT_SECRET = Some ''k'', clock = 2000, salt = ''s''\<rparr>)
        \<lparr>sub = 7, email = ''a@b'', role = Member, tenantId = 1, tenantSlug = ''acme'', plan = Free\<rparr>
        0 1500)
     (JWT_SECRET \<lparr>env_JWT_SECRET = Some ''k'', clock = 2000, salt = ''s''\<rparr>) 2000 = Inl Expired"
  using token_round_trip
    [of "\<lparr>env_JWT_SECRET = Some ''k'', clock = 2000, salt = ''s''\<rparr>"
        "\<lparr>env_JWT_SECRET = Some ''k'', clock = 1000, salt = ''s''\<rparr>"
        "\<lparr>sub = 7, email = ''a@b'', role = Member, tenantId = 1, tenantSlug = ''acme'', plan = Free\<rparr>"
        "\<lambda>a t. (Response 200 SuccessBody, t)" s 1500 0 None]
  by (simp add: seconds_7d_def)

section \<open>Distinguishable credential failures\<close>

text \<open>
  C8 does not hold of the code. Both failing branches of the login send the same 401, but
  \<open>bcrypt.compare\<close> is reached only when the email matches a user, and it throws on a
  password that is not a string: with the password \<open>123\<close>, the login for the stored email
  \<open>admin@acme.test\<close> is answered 500 \<open>Internal server error\<close>, and the login for an
  email no user has is answered 401 \<open>Invalid credentials\<close>.
\<close>

theorem credential_failures_distinguishable:
  "post_auth_login ex_env
     (Some \<lparr>lb_email = JStr ''admin@acme.test'', lb_password = JNum ''123''\<rparr>) ex_state =
     (Response 500 (ErrorBody ''Internal server error''), ex_state) \<and>
   post_auth_login ex_env
     (Some \<lparr>lb_email = JStr ''nobody@acme.test'', lb_password = JNum ''123''\<rparr>) ex_state =
     (Response 401 (ErrorBody ''Invalid credentials''), ex_state)"
proof -
  have i: "initializeDatabase ex_env ex_state = (None, ex_state)"
    by (simp add: initializeDatabase_def ex_state_def)
  show ?thesis
    unfolding post_auth_login_def i
    by (simp add: bindable_def text_ok_def rows0_def ex_state_def ex_user_def)
qed

section \<open>The password of an invited user\<close>

text \<open>
  C9. A successful invite appends one user whose stored hash is the hash of the fixed
  string \<open>password\<close> at cost 10; the invite body has no password field. A login with
  the invited email and the password \<open>password\<close> then succeeds.
\<close>

theorem invite_default_password:
  assumes "route_invite e h slug (Some b) s = (Response 200 SuccessBody, s')"
  shows "\<exists>u. tbl_users s' = tbl_users (initialised e s) @ [u] \<and>
           Some (u_email u) = prepareValue (ib_email b) \<and>
           u_password_hash u = bcrypt_hash ''password'' 10 (salt e) \<and>
           bcrypt_compare ''password'' (u_password_hash u) \<and>
           (\<exists>tk uj. post_auth_login e2
                       (Some \<lparr>lb_email = ib_email b, lb_password = JStr ''password''\<rparr>) s' =
                      (Response 200 (LoginBody tk uj), s'))"
proof -
  from invite_route_success [OF assms] obtain c where
    "post_tenants_invite e slug (Some b) c s = (Response 200 SuccessBody, s')" by blast
  from invite_handler_success [OF this] obtain em r where
    em: "prepareValue (ib_email b) = Some em"
    and truthy: "\<not> falsy (ib_email b)"
    and bind: "bindable (ib_email b)"
    and fresh: "\<forall>u \<in> set (tbl_users (initialised e s)). u_email u \<noteq> em"
    and fk: "\<exists>t \<in> set (tbl_tenants (initialised e s)). t_id t = tenantId c"
    and s': "s' = (initialised e s)
                  \<lparr>users_seq := users_seq (initialised e s) + 1,
                    tbl_users := tbl_users (initialised e s) @
                      [\<lparr>u_id = users_seq (initialised e s), u_email = em,
                         u_password_hash = bcrypt_hash ''password'' 10 (salt e), u_role = r,
                         u_tenant_id = tenantId c, u_created_at = clock e\<rparr>]\<rparr>"
    by blast
  let ?u = "\<lparr>u_id = users_seq (initialised e s), u_email = em,
                         u_password_hash = bcrypt_hash ''password'' 10 (salt e), u_role = r,
                         u_tenant_id = tenantId c, u_created_at = clock e\<rparr>"
  have users': "tbl_users s' = tbl_users (initialised e s) @ [?u]" by (simp add: s')
  have tenants': "tbl_tenants s' = tbl_tenants (initialised e s)" by (simp add: s')
  have init': "initializeDatabase e2 s' = (None, s')"
    by (rule initializeDatabase_idle) (simp add: s' initialised_initialized)
  have look: "rows0 (filter (\<lambda>u. Some (u_email u) = Some em) (tbl_users s')) = Some ?u"
    unfolding users' using fresh by (intro rows0_filter_last) simp_all
  from fk have "rows0 (filter (\<lambda>t. t_id t = tenantId c) (tbl_tenants s')) \<noteq> None"
    unfolding tenants' rows0_filter_None by blast
  then obtain t where t: "rows0 (filter (\<lambda>t. t_id t = tenantId c) (tbl_tenants s')) = Some t"
    by blast
  have login: "\<exists>tk uj. post_auth_login e2
        (Some \<lparr>lb_email = ib_email b, lb_password = JStr ''password''\<rparr>) s' =
        (Response 200 (LoginBody tk uj), s')"
    using init' em truthy bind look t
    by (simp add: post_auth_login_def bcrypt_compare_def bcrypt_hash_def)
  have "Some (u_email ?u) = prepareValue (ib_email b)" by (simp add: em)
  moreover have "u_password_hash ?u = bcrypt_hash ''password'' 10 (salt e)" by simp
  moreover have "bcrypt_compare ''password'' (u_password_hash ?u)"
    by (simp add: bcrypt_compare_def bcrypt_hash_def)
  ultimately show ?thesis using users' login by blast
qed

theorem invite_default_password_witness:
  "route_invite ex_env (Some (Bearer (ex_token acme_admin))) ''acme''
       (Some \<lparr>ib_email = JStr ''new@acme.test'', ib_role = JStr ''member''\<rparr>) ex_state =
     (Response 200 SuccessBody,
      ex_state\<lparr>users_seq := 6,
        tbl_users := tbl_users ex_state @
          [\<lparr>u_id = 5, u_email = ''new@acme.test'',
            u_password_hash = bcrypt_hash ''password'' 10 ''s'', u_role = Member,
            u_tenant_id = 1, u_created_at = 2000\<rparr>]\<rparr>) \<and>
   (\<exists>tk uj. post_auth_login ex_env
               (Some \<lparr>lb_email = ib_email \<lparr>ib_email = JStr ''new@acme.test'', ib_role = JStr ''member''\<rparr>,
                 lb_password = JStr ''password''\<rparr>)
               (ex_state\<lparr>users_seq := 6,
                  tbl_users := tbl_users ex_state @
                    [\<lparr>u_id = 5, u_email = ''new@acme.test'',
                      u_password_hash = bcrypt_hash ''password'' 10 ''s'', u_role = Member,
                      u_tenant_id = 1, u_created_at = 2000\<rparr>]\<rparr>) =
             (Response 200 (LoginBody tk uj),
              ex_state\<lparr>users_seq := 6,
                  tbl_users := tbl_users ex_state @
                    [\<lparr>u_id = 5, u_email = ''new@acme.test'',
                      u_password_hash = bcrypt_hash ''password'' 10 ''s'', u_role = Member,
                      u_tenant_id = 1, u_created_at = 2000\<rparr>]\<rparr>))"
proof -
  let ?s' = "ex_state\<lparr>users_seq := 6,
        tbl_users := tbl_users ex_state @
          [\<lparr>u_id = 5, u_email = ''new@acme.test'',
            u_password_hash = bcrypt_hash ''password'' 10 ''s'', u_role = Member,
            u_tenant_id = 1, u_created_at = 2000\<rparr>]\<rparr>"
  have i: "initializeDatabase ex_env ex_state = (None, ex_state)"
    by (simp add: initializeDatabase_def ex_state_def)
  have h: "route_invite ex_env (Some (Bearer (ex_token acme_admin))) ''acme''
       (Some \<lparr>ib_email = JStr ''new@acme.test'', ib_role = JStr ''member''\<rparr>) ex_state =
     (Response 200 SuccessBody, ?s')"
    unfolding route_invite_def requireAuth_decoded [OF ex_verify] post_tenants_invite_def i
    by (simp add: acme_admin_def role_of_json_def insert_user_def text_ok_def Let_def ex_env_def
        ex_state_def ex_user_def ex_acme_def ex_globex_def)
  from invite_default_password [OF h, of ex_env] h show ?thesis by blast
qed

section \<open>Frame of an update\<close>

text \<open>
  C10. Take an authorised update (by an admin of the tenant or by the note's creator) of a
  stored note. The handler checks nothing about the body it has read: whatever the fields
  hold, absent and \<open>null\<close> included, the update is answered 200 as long as the server
  accepts the title and content parameters as text, and is answered 500 with the notes
  left as they were when it does not. The stored note changes in title, content and
  \<open>updated_at\<close> only, a field that is absent or \<open>null\<close> keeps its stored value, and
  every other note of the table is unchanged. A body that cannot be read, or is \<open>null\<close>
  itself, throws before the note is looked up and leaves the notes as they were.
\<close>

theorem update_frame:
  assumes "jwt_verify tok (JWT_SECRET e) (clock e) = Inr c"
    and "distinct (map n_id (tbl_notes s))"
    and "n \<in> set (tbl_notes s)"
    and "int4 (n_id n)"
    and "n_tenant_id n = tenantId c"
    and "role c = Admin \<or> n_user_id n = sub c"
  shows "(bindable (nb_title b) \<and> bindable (nb_content b) \<longrightarrow>
            fst (route_update_note e (Some (Bearer tok)) (Some (n_id n)) (Some b) s) =
              Response 200
                (NoteBody (returning (set_clause (prepareValue (nb_title b))
                   (prepareValue (nb_content b)) (clock e) n))) \<and>
            tbl_notes (snd (route_update_note e (Some (Bearer tok)) (Some (n_id n)) (Some b) s)) =
              map (\<lambda>x. if x = n
                        then set_clause (prepareValue (nb_title b))
                               (prepareValue (nb_content b)) (clock e) n
                        else x)
                (tbl_notes s)) \<and>
         (\<not> (bindable (nb_title b) \<and> bindable (nb_content b)) \<longrightarrow>
            fst (route_update_note e (Some (Bearer tok)) (Some (n_id n)) (Some b) s) =
              Response 500 (ErrorBody ''Failed to update note'') \<and>
            tbl_notes (snd (route_update_note e (Some (Bearer tok)) (Some (n_id n)) (Some b) s)) =
              tbl_notes s) \<and>
         fst (route_update_note e (Some (Bearer tok)) (Some (n_id n)) None s) = Uncaught \<and>
         tbl_notes (snd (route_update_note e (Some (Bearer tok)) (Some (n_id n)) None s)) =
           tbl_notes s \<and>
         n_id (set_clause (prepareValue (nb_title b)) (prepareValue (nb_content b)) (clock e) n) =
           n_id n \<and>
         n_tenant_id (set_clause (prepareValue (nb_title b)) (prepareValue (nb_content b)) (clock e) n) =
           n_tenant_id n \<and>
         n_user_id (set_clause (prepareValue (nb_title b)) (prepareValue (nb_content b)) (clock e) n) =
           n_user_id n \<and>
         n_created_at (set_clause (prepareValue (nb_title b)) (prepareValue (nb_content b)) (clock e) n) =
           n_created_at n \<and>
         (nb_title b = JUndefined \<or> nb_title b = JNull \<longrightarrow>
            n_title (set_clause (prepareValue (nb_title b)) (prepareValue (nb_content b)) (clock e) n) =
              n_title n) \<and>
         (nb_content b = JUndefined \<or> nb_content b = JNull \<longrightarrow>
            n_content (set_clause (prepareValue (nb_title b)) (prepareValue (nb_content b)) (clock e) n) =
              n_content n)"
proof -
  from assms(6) have ok: "\<not> (role c = Member \<and> n_user_id n \<noteq> sub c)" by auto
  have r: "route_update_note e (Some (Bearer tok)) (Some (n_id n)) bo s =
      put_notes_id e (Some (n_id n)) bo c s" for bo
    by (simp add: route_update_note_def requireAuth_decoded [OF assms(1)])
  have accepted: "bindable (nb_title b) \<and> bindable (nb_content b) \<longrightarrow>
            fst (route_update_note e (Some (Bearer tok)) (Some (n_id n)) (Some b) s) =
              Response 200
                (NoteBody (returning (set_clause (prepareValue (nb_title b))
                   (prepareValue (nb_content b)) (clock e) n))) \<and>
            tbl_notes (snd (route_update_note e (Some (Bearer tok)) (Some (n_id n)) (Some b) s)) =
              map (\<lambda>x. if x = n
                        then set_clause (prepareValue (nb_title b))
                               (prepareValue (nb_content b)) (clock e) n
                        else x)
                (tbl_notes s)"
  proof
    assume "bindable (nb_title b) \<and> bindable (nb_content b)"
    then have bt: "bindable (nb_title b)" and bc: "bindable (nb_content b)" by simp_all
    show "fst (route_update_note e (Some (Bearer tok)) (Some (n_id n)) (Some b) s) =
              Response 200
                (NoteBody (returning (set_clause (prepareValue (nb_title b))
                   (prepareValue (nb_content b)) (clock e) n))) \<and>
            tbl_notes (snd (route_update_note e (Some (Bearer tok)) (Some (n_id n)) (Some b) s)) =
              map (\<lambda>x. if x = n
                        then set_clause (prepareValue (nb_title b))
                               (prepareValue (nb_content b)) (clock e) n
                        else x)
                (tbl_notes s)"
      unfolding r put_allowed [OF assms(2,3,5) ok assms(4) bt bc] by simp
  qed
  have rejected: "\<not> (bindable (nb_title b) \<and> bindable (nb_content b)) \<longrightarrow>
            fst (route_update_note e (Some (Bearer tok)) (Some (n_id n)) (Some b) s) =
              Response 500 (ErrorBody ''Failed to update note'') \<and>
            tbl_notes (snd (route_update_note e (Some (Bearer tok)) (Some (n_id n)) (Some b) s)) =
              tbl_notes s"
  proof
    assume nb: "\<not> (bindable (nb_title b) \<and> bindable (nb_content b))"
    show "fst (route_update_note e (Some (Bearer tok)) (Some (n_id n)) (Some b) s) =
              Response 500 (ErrorBody ''Failed to update note'') \<and>
            tbl_notes (snd (route_update_note e (Some (Bearer tok)) (Some (n_id n)) (Some b) s)) =
              tbl_notes s"
      unfolding r put_text_rejected [OF assms(2,3,5) ok assms(4) nb]
      by (simp add: initialised_notes)
  qed
  have unread: "fst (route_update_note e (Some (Bearer tok)) (Some (n_id n)) None s) = Uncaught \<and>
         tbl_notes (snd (route_update_note e (Some (Bearer tok)) (Some (n_id n)) None s)) =
           tbl_notes s"
    unfolding r put_null_body by (simp add: initialised_notes)
  have fields: "n_id (set_clause (prepareValue (nb_title b)) (prepareValue (nb_content b)) (clock e) n) =
           n_id n \<and>
         n_tenant_id (set_clause (prepareValue (nb_title b)) (prepareValue (nb_content b)) (clock e) n) =
           n_tenant_id n \<and>
         n_user_id (set_clause (prepareValue (nb_title b)) (prepareValue (nb_content b)) (clock e) n) =
           n_user_id n \<and>
         n_created_at (set_clause (prepareValue (nb_title b)) (prepareValue (nb_content b)) (clock e) n) =
           n_created_at n"
    by (simp add: set_clause_def)
  have kept: "(nb_title b = JUndefined \<or> nb_title b = JNull \<longrightarrow>
            n_title (set_clause (prepareValue (nb_title b)) (prepareValue (nb_content b)) (clock e) n) =
              n_title n) \<and>
         (nb_content b = JUndefined \<or> nb_content b = JNull \<longrightarrow>
            n_content (set_clause (prepareValue (nb_title b)) (prepareValue (nb_content b)) (clock e) n) =
              n_content n)"
    by (auto simp: set_clause_def COALESCE_def)
  from accepted rejected unread fields kept show ?thesis by blast
qed

theorem update_frame_witness:
  "jwt_verify (ex_token acme_member) (JWT_SECRET ex_env) (clock ex_env) = Inr acme_member \<and>
   distinct (map n_id (tbl_notes ex_state)) \<and>
   ex_note3 \<in> set (tbl_notes ex_state) \<and>
   int4 (n_id ex_note3) \<and>
   n_tenant_id ex_note3 = tenantId acme_member \<and>
   (role acme_member = Admin \<or> n_user_id ex_note3 = sub acme_member) \<and>
   bindable (nb_title \<lparr>nb_title = JUndefined, nb_content = JStr ''done''\<rparr>) \<and>
   bindable (nb_content \<lparr>nb_title = JUndefined, nb_content = JStr ''done''\<rparr>) \<and>
   tbl_notes (snd (route_update_note ex_env (Some (Bearer (ex_token acme_member))) (Some (n_id ex_note3))
                (Some \<lparr>nb_title = JUndefined, nb_content = JStr ''done''\<rparr>) ex_state)) =
     [ex_note1, ex_note2, ex_note3\<lparr>n_content := ''done'', n_updated_at := 2000\<rparr>] \<and>
   fst (route_update_note ex_env (Some (Bearer (ex_token acme_member))) (Some (n_id ex_note3))
          (Some \<lparr>nb_title = JStr [CHR 0x00], nb_content = JStr ''done''\<rparr>) ex_state) =
     Response 500 (ErrorBody ''Failed to update note'')"
proof -
  let ?b = "\<lparr>nb_title = JUndefined, nb_content = JStr ''done''\<rparr>"
  let ?z = "\<lparr>nb_title = JStr [CHR 0x00], nb_content = JStr ''done''\<rparr>"
  have m3: "ex_note3 \<in> set (tbl_notes ex_state)" by (simp add: ex_state_def)
  have t3: "n_tenant_id ex_note3 = tenantId acme_member"
    and o3: "role acme_member = Admin \<or> n_user_id ex_note3 = sub acme_member"
    by (simp_all add: ex_note3_def acme_member_def)
  have ne: "ex_note1 \<noteq> ex_note3" "ex_note2 \<noteq> ex_note3"
    by (simp_all add: ex_note1_def ex_note2_def ex_note3_def)
  have bt: "bindable (nb_title ?b)" and bc: "bindable (nb_content ?b)"
    by (simp_all add: bindable_def text_ok_def)
  have nz: "\<not> (bindable (nb_title ?z) \<and> bindable (nb_content ?z))"
    by (simp add: bindable_def text_ok_def)
  from update_frame [OF ex_verify ex_distinct m3 ex_int4(3) t3 o3, of ?b] bt bc
  have "tbl_notes (snd (route_update_note ex_env (Some (Bearer (ex_token acme_member))) (Some (n_id ex_note3))
                (Some ?b) ex_state)) =
     map (\<lambda>x. if x = ex_note3
               then set_clause (prepareValue (nb_title ?b)) (prepareValue (nb_content ?b))
                      (clock ex_env) ex_note3
               else x) (tbl_notes ex_state)" by blast
  then have a: "tbl_notes (snd (route_update_note ex_env (Some (Bearer (ex_token acme_member)))
                (Some (n_id ex_note3)) (Some ?b) ex_state)) =
     [ex_note1, ex_note2, ex_note3\<lparr>n_content := ''done'', n_updated_at := 2000\<rparr>]"
    using ne by (simp add: ex_state_def set_clause_def COALESCE_def ex_env_def)
  from update_frame [OF ex_verify ex_distinct m3 ex_int4(3) t3 o3, of ?z] nz
  have z: "fst (route_update_note ex_env (Some (Bearer (ex_token acme_member))) (Some (n_id ex_note3))
          (Some ?z) ex_state) = Response 500 (ErrorBody ''Failed to update note'')" by blast
  from a z ex_verify ex_distinct m3 ex_int4(3) t3 o3 bt bc show ?thesis by blast
qed


end
